theory Spec2Isabelle
  imports Complex_Main "HOL-Library.Word"
begin

section \<open>The benchmark driver of Snowman (benchmark.cpp)\<close>

text \<open>
  The source file is the command-line driver of the benchmarking harness. It parses the
  options, seeds the C random number generator and runs one of three modes. This theory
  embeds the driver function by function. Services of the C and C++ standard libraries and
  of the SnowTools library are parameters of the model (records of functions); doubles are
  modelled as reals, since the driver only stores, compares and prints them.
\<close>

subsection \<open>Fatal exits\<close>

text \<open>
  Every \<^verbatim>\<open>exit(EXIT_FAILURE)\<close> of the driver, named after the message printed on
  stderr right before it, and the two kinds of undefined behaviour the driver can reach
  (an index into an empty vector, a remainder by zero), and the failed
  \<^verbatim>\<open>assert\<close>.
\<close>

datatype fatal =
    Usage
  | CouldNotConvert string
  | MustSpecifyFractions
  | NeedBamHeader
  | CantParseRegions
  | MustInputRegion
  | ReadLengthTooLarge
  | AssertionFailed
  | IndexOutOfRange
  | ModuloByZero
  | ComponentFailure string

subsection \<open>Options and static state\<close>

text \<open>The enumeration of the long-only options; \<^verbatim>\<open>opt::mode\<close> starts at -1.\<close>

definition OPT_ASSEMBLY :: int where "OPT_ASSEMBLY = 0"
definition OPT_SIMBREAKS :: int where "OPT_SIMBREAKS = 1"
definition OPT_ISIZE_MEAN :: int where "OPT_ISIZE_MEAN = 2"
definition OPT_ISIZE_SD :: int where "OPT_ISIZE_SD = 3"
definition OPT_SPLITBAM :: int where "OPT_SPLITBAM = 4"

definition DEFAULT_SNV_RATE :: real where "DEFAULT_SNV_RATE = 0.01"
definition DEFAULT_DEL_RATE :: real where "DEFAULT_DEL_RATE = 0.05"
definition DEFAULT_INS_RATE :: real where "DEFAULT_INS_RATE = 0.05"
definition DEFAULT_COV :: real where "DEFAULT_COV = 10"

text \<open>Namespace \<^verbatim>\<open>opt\<close>.\<close>

record opt =
  refgenome :: string
  mode :: int
  readlen :: nat
  num_runs :: int
  seed :: "32 word"
  regionFile :: string
  bam :: string
  isize_mean :: int
  isize_sd :: int
  nbreaks :: int
  nindels :: int
  string_id :: string
  frac_bed_file :: string

text \<open>The five static vectors of doubles.\<close>

record rates =
  snv_error_rates :: "real list"
  del_error_rates :: "real list"
  ins_error_rates :: "real list"
  coverages :: "real list"
  fractions :: "real list"

text \<open>The locals of \<^verbatim>\<open>parseBenchmarkOptions\<close>.\<close>

record plocals =
  die :: bool
  del_er :: string
  snv_er :: string
  ins_er :: string
  covs :: string
  frac :: string

subsection \<open>Library services used while parsing\<close>

text \<open>
  \<^item> \<open>stod\<close>: \<^verbatim>\<open>std::stod\<close>, \<open>None\<close> where it throws;
  \<^item> \<open>extract_int\<close>, \<open>extract_u32\<close>: \<^verbatim>\<open>arg >> x\<close> for an \<^verbatim>\<open>int\<close> and a
    \<^verbatim>\<open>uint32_t\<close>, from the option's argument and the old value to the new one;
  \<^item> \<open>read_access_test\<close>: \<^verbatim>\<open>SnowTools::read_access_test\<close>, whether a path names a
    readable file;
  \<^item> \<open>REFHG19\<close>: the constant \<^verbatim>\<open>SnowTools::REFHG19\<close>.
\<close>

record parse_env =
  stod :: "string \<Rightarrow> real option"
  extract_int :: "string \<Rightarrow> int \<Rightarrow> int"
  extract_u32 :: "string \<Rightarrow> 32 word \<Rightarrow> 32 word"
  read_access_test :: "string \<Rightarrow> bool"
  REFHG19 :: string

text \<open>
  \<^verbatim>\<open>arg >> s\<close> for a \<^verbatim>\<open>std::string\<close>: leading white space is skipped and the
  characters up to the next white space replace \<open>s\<close>; when nothing but white space is
  left the extraction fails and \<open>s\<close> keeps its value.
\<close>

definition isspace :: "char \<Rightarrow> bool" where
  "isspace c = (c = CHR '' '' \<or> c = CHR 0x09 \<or> c = CHR 0x0A \<or> c = CHR 0x0B
     \<or> c = CHR 0x0C \<or> c = CHR 0x0D)"

definition extract_string :: "string \<Rightarrow> string \<Rightarrow> string" where
  "extract_string arg old =
     (let r = dropWhile isspace arg
      in if r = [] then old else takeWhile (\<lambda>c. \<not> isspace c) r)"

definition opt_init :: "parse_env \<Rightarrow> opt" where
  "opt_init E = \<lparr> refgenome = REFHG19 E, mode = -1, readlen = 101, num_runs = 100,
     seed = 0, regionFile = [], bam = [], isize_mean = 250, isize_sd = 50,
     nbreaks = 10, nindels = 10, string_id = ''noid'', frac_bed_file = [] \<rparr>"

definition plocals_init :: "nat \<Rightarrow> plocals" where
  "plocals_init argc = \<lparr> die = (argc < 2), del_er = [], snv_er = [], ins_er = [],
     covs = [], frac = [] \<rparr>"

text \<open>
  One round of the \<^verbatim>\<open>getopt_long\<close> loop. The pair \<open>(c, arg)\<close> is what
  \<^verbatim>\<open>getopt_long\<close> returned and the text of \<^verbatim>\<open>optarg\<close> (empty when it is
  \<^verbatim>\<open>NULL\<close>); short options are the codes of their characters.
\<close>

definition scan_option :: "parse_env \<Rightarrow> opt \<times> plocals \<Rightarrow> int \<times> string \<Rightarrow> opt \<times> plocals" where
  "scan_option E st ca =
     (let (c, arg) = ca; (ops, l) = st in
      if c = of_char CHR ''h'' then (ops, l\<lparr>die := True\<rparr>)
      else if c = OPT_ASSEMBLY then (ops\<lparr>mode := OPT_ASSEMBLY\<rparr>, l)
      else if c = of_char CHR ''G'' then (ops\<lparr>refgenome := extract_string arg (refgenome ops)\<rparr>, l)
      else if c = of_char CHR ''n'' then (ops\<lparr>num_runs := extract_int E arg (num_runs ops)\<rparr>, l)
      else if c = of_char CHR ''s'' then (ops\<lparr>seed := extract_u32 E arg (seed ops)\<rparr>, l)
      else if c = of_char CHR ''c'' then (ops, l\<lparr>covs := extract_string arg (covs l)\<rparr>)
      else if c = of_char CHR ''k'' then (ops\<lparr>regionFile := extract_string arg (regionFile ops)\<rparr>, l)
      else if c = of_char CHR ''b'' then (ops\<lparr>bam := extract_string arg (bam ops)\<rparr>, l)
      else if c = of_char CHR ''E'' then (ops, l\<lparr>snv_er := extract_string arg (snv_er l)\<rparr>)
      else if c = of_char CHR ''R'' then (ops\<lparr>nbreaks := extract_int E arg (nbreaks ops)\<rparr>, l)
      else if c = of_char CHR ''X'' then (ops\<lparr>nindels := extract_int E arg (nindels ops)\<rparr>, l)
      else if c = of_char CHR ''D'' then (ops, l\<lparr>del_er := extract_string arg (del_er l)\<rparr>)
      else if c = of_char CHR ''I'' then (ops, l\<lparr>ins_er := extract_string arg (ins_er l)\<rparr>)
      else if c = of_char CHR ''A'' then (ops\<lparr>string_id := extract_string arg (string_id ops)\<rparr>, l)
      else if c = of_char CHR ''f'' then (ops, l\<lparr>frac := extract_string arg (frac l)\<rparr>)
      else if c = OPT_SIMBREAKS then (ops\<lparr>mode := OPT_SIMBREAKS\<rparr>, l)
      else if c = OPT_SPLITBAM then (ops\<lparr>mode := OPT_SPLITBAM\<rparr>, l)
      else if c = OPT_ISIZE_MEAN then (ops\<lparr>isize_mean := extract_int E arg (isize_mean ops)\<rparr>, l)
      else if c = OPT_ISIZE_SD then (ops\<lparr>isize_sd := extract_int E arg (isize_sd ops)\<rparr>, l)
      else (ops, l\<lparr>die := True\<rparr>))"

definition scan_options :: "parse_env \<Rightarrow> nat \<Rightarrow> (int \<times> string) list \<Rightarrow> opt \<times> plocals" where
  "scan_options E argc argv = foldl (scan_option E) (opt_init E, plocals_init argc) argv"

subsection \<open>parseErrorRates\<close>

text \<open>
  The \<^verbatim>\<open>std::getline(is, val, ',')\<close> loop: the pieces between commas, in order. A
  piece may be empty; nothing follows a final comma, and the empty string has no piece.
  \<open>cur\<close> holds the characters of the current piece, last first.
\<close>

fun getline_pieces :: "string \<Rightarrow> string \<Rightarrow> string list" where
  "getline_pieces cur [] = (if cur = [] then [] else [rev cur])"
| "getline_pieces cur (c # cs) =
     (if c = CHR '','' then rev cur # getline_pieces [] cs else getline_pieces (c # cur) cs)"

text \<open>The body of the loop: convert, append, or report the piece and exit.\<close>

fun convert_pieces :: "(string \<Rightarrow> real option) \<Rightarrow> real list \<Rightarrow> string list \<Rightarrow> fatal + real list" where
  "convert_pieces sd out [] = Inr out"
| "convert_pieces sd out (val # vals) =
     (case sd val of
        None \<Rightarrow> Inl (CouldNotConvert val)
      | Some d \<Rightarrow> convert_pieces sd (out @ [d]) vals)"

definition parseErrorRates :: "(string \<Rightarrow> real option) \<Rightarrow> string \<Rightarrow> fatal + real list" where
  "parseErrorRates sd s = convert_pieces sd [] (getline_pieces [] s)"

subsection \<open>parseBenchmarkOptions\<close>

text \<open>
  After the scan: the usage exit, the four lists, the fractions (a list, or the name of a
  readable file), the defaults, and the check that split-bam has fractions.
\<close>

definition set_defaults :: "rates \<Rightarrow> rates" where
  "set_defaults r =
     (let r1 = (if snv_error_rates r = [] then r\<lparr>snv_error_rates := [DEFAULT_SNV_RATE]\<rparr> else r);
          r2 = (if del_error_rates r1 = [] then r1\<lparr>del_error_rates := [DEFAULT_DEL_RATE]\<rparr> else r1);
          r3 = (if ins_error_rates r2 = [] then r2\<lparr>ins_error_rates := [DEFAULT_INS_RATE]\<rparr> else r2)
      in if coverages r3 = [] then r3\<lparr>coverages := [DEFAULT_COV]\<rparr> else r3)"

definition parse_fractions :: "parse_env \<Rightarrow> opt \<Rightarrow> string \<Rightarrow> fatal + (real list \<times> opt)" where
  "parse_fractions E ops fr =
     (if \<not> read_access_test E fr
      then (case parseErrorRates (stod E) fr of
              Inl e \<Rightarrow> Inl e
            | Inr fs \<Rightarrow> Inr (fs, ops))
      else Inr ([], ops\<lparr>frac_bed_file := fr\<rparr>))"

definition parseBenchmarkOptions ::
  "parse_env \<Rightarrow> nat \<Rightarrow> (int \<times> string) list \<Rightarrow> fatal + (opt \<times> rates)" where
  "parseBenchmarkOptions E argc argv =
     (let (ops, l) = scan_options E argc argv in
      if die l then Inl Usage
      else (case parseErrorRates (stod E) (snv_er l) of Inl e \<Rightarrow> Inl e | Inr snv \<Rightarrow>
           (case parseErrorRates (stod E) (del_er l) of Inl e \<Rightarrow> Inl e | Inr del \<Rightarrow>
           (case parseErrorRates (stod E) (ins_er l) of Inl e \<Rightarrow> Inl e | Inr ins \<Rightarrow>
           (case parseErrorRates (stod E) (covs l) of Inl e \<Rightarrow> Inl e | Inr cov \<Rightarrow>
           (case parse_fractions E ops (frac l) of Inl e \<Rightarrow> Inl e | Inr (fs, ops') \<Rightarrow>
             (let r = set_defaults \<lparr> snv_error_rates = snv, del_error_rates = del,
                        ins_error_rates = ins, coverages = cov, fractions = fs \<rparr>
              in if (fractions r = [] \<and> frac_bed_file ops' = []) \<and> mode ops' = OPT_SPLITBAM
                 then Inl MustSpecifyFractions
                 else Inr (ops', r))))))))"

subsection \<open>Collaborators of the run\<close>

text \<open>
  What the driver reads and writes through other libraries. A genomic region is a
  chromosome index and two positions; of a BAM record the driver itself reads only the
  quality string, the partitioner its query name.
\<close>

record region =
  chr :: int
  pos1 :: int
  pos2 :: int

record bam_read =
  Qname :: string
  first_mate :: bool
  Sequence :: string
  Qualities :: string
  mapped :: region

text \<open>
  The effects a run leaves behind, in the order they happen: the one call of
  \<^verbatim>\<open>srand\<close>, the stderr lines the properties below speak about, the rows on stdout,
  and the files written (text through \<^verbatim>\<open>std::ofstream\<close>, BAM files and the aligner's
  index through SnowTools).
\<close>

datatype event =
    Srand "32 word"
  | Stderr string
  | Stdout string
  | WriteText string string
  | WriteBam string "bam_read list"
  | WriteIndex string string

text \<open>
  A \<^verbatim>\<open>SimGenome\<close> after construction: the mutated sequence, the printed form of each
  element of \<^verbatim>\<open>m_indels\<close>, and the text of \<^verbatim>\<open>printBreaks()\<close>.
\<close>

record sim_genome =
  getSequence :: string
  m_indels :: "string list"
  printBreaks :: string

text \<open>What the alignment and assembly of one round of \<^verbatim>\<open>assemblyTest\<close> yields.\<close>

record assembly =
  reads_to_local :: "bam_read list"
  n_contigs :: nat
  contigs_to_local :: "bam_read list"
  n_merged :: nat
  width :: real
  k_reads :: "bam_read list"

text \<open>
  The services, over a type \<open>'g\<close> of states of the C random number generator:
  \<^item> \<open>srand\<close>, \<open>rand\<close>: the C library's generator;
  \<^item> \<open>to_string\<close>: \<^verbatim>\<open>std::to_string\<close> of a double; \<open>show_double\<close>: a double printed on a stream;
  \<^item> \<open>has_header\<close>: whether the walker opened on this BAM (none when the name is empty)
    has a header;
  \<^item> \<open>regionFileToGRV\<close>, \<open>region_of_string\<close>: the regions of a BED file, and of a
    samtools-style string;
  \<^item> \<open>readFromBed\<close>: the table of \<^verbatim>\<open>SnowTools::Fractions\<close>;
  \<^item> \<open>walker_reads\<close>: the records \<^verbatim>\<open>GetNextRead\<close> yields, in order, from a BAM
    restricted to regions;
  \<^item> \<open>getRefSequence\<close>: the reference bases of a region;
  \<^item> \<open>SimGenome\<close>, \<open>sampleReadsToCoverage\<close>, \<open>samplePairedEndReadsToCoverage\<close>: the genome
    builder and the read sampler of this repository, which draw from the generator;
  \<^item> \<open>fractionateBam\<close>, \<open>splitBam_files\<close>: the two operations of \<^verbatim>\<open>BamSplitter\<close>,
    with the files they write;
  \<^item> \<open>index_files\<close>, \<open>assess\<close>: the aligner's index of the local reference, and the
    alignment, k-mer correction and assembly of one round.
\<close>

record 'g services =
  srand :: "32 word \<Rightarrow> 'g"
  rand :: "'g \<Rightarrow> nat \<times> 'g"
  to_string :: "real \<Rightarrow> string"
  show_double :: "real \<Rightarrow> string"
  has_header :: "string \<Rightarrow> bool"
  regionFileToGRV :: "string \<Rightarrow> string \<Rightarrow> region list"
  region_of_string :: "string \<Rightarrow> string \<Rightarrow> region"
  readFromBed :: "string \<Rightarrow> string \<Rightarrow> (region \<times> real) list"
  walker_reads :: "string \<Rightarrow> region list \<Rightarrow> bam_read list"
  getRefSequence :: "string \<Rightarrow> region \<Rightarrow> string"
  SimGenome :: "'g \<Rightarrow> string \<Rightarrow> region \<Rightarrow> int \<Rightarrow> int \<Rightarrow> fatal + (sim_genome \<times> 'g)"
  sampleReadsToCoverage ::
    "'g \<Rightarrow> (string \<times> real) list \<Rightarrow> real \<Rightarrow> real \<Rightarrow> real \<Rightarrow> real \<Rightarrow> nat
      \<Rightarrow> fatal + (string list \<times> 'g)"
  samplePairedEndReadsToCoverage ::
    "'g \<Rightarrow> (string \<times> real) list \<Rightarrow> real \<Rightarrow> real \<Rightarrow> real \<Rightarrow> real \<Rightarrow> nat \<Rightarrow> int \<Rightarrow> int
      \<Rightarrow> fatal + (string list \<times> string list \<times> 'g)"
  fractionateBam ::
    "string \<Rightarrow> 32 word \<Rightarrow> region list \<Rightarrow> (region \<times> real) list \<Rightarrow> bam_read list"
  splitBam_files ::
    "string \<Rightarrow> 32 word \<Rightarrow> region list \<Rightarrow> string list \<Rightarrow> real list \<Rightarrow> bam_read list list"
  index_files :: "string \<Rightarrow> string"
  assess :: "'g \<Rightarrow> string \<Rightarrow> string list \<Rightarrow> nat \<Rightarrow> assembly \<times> 'g"

subsection \<open>Small helpers\<close>

text \<open>An unsigned number as a stream prints it: decimal, no padding.\<close>

definition digit :: "nat \<Rightarrow> char" where
  "digit d = ''0123456789'' ! d"

fun show_nat :: "nat \<Rightarrow> string" where
  "show_nat n = (if n < 10 then [digit n] else show_nat (n div 10) @ [digit (n mod 10)])"

definition newline :: string where
  "newline = [CHR 0x0A]"

text \<open>
  A run is the events so far and either a fatal exit or a value. \<open>andthen\<close> carries on
  after a step that did not exit.
\<close>

type_synonym 'a run = "event list \<times> (fatal + 'a)"

definition andthen :: "'a run \<Rightarrow> ('a \<Rightarrow> 'b run) \<Rightarrow> 'b run" where
  "andthen m f =
     (case m of
        (es, Inl e) \<Rightarrow> (es, Inl e)
      | (es, Inr a) \<Rightarrow> (case f a of (es', r) \<Rightarrow> (es @ es', r)))"

definition silently :: "fatal + 'a \<Rightarrow> 'a run" where
  "silently r = ([], r)"

definition emit :: "event list \<Rightarrow> unit run" where
  "emit es = (es, Inr ())"

text \<open>\<^verbatim>\<open>v[0]\<close>; on an empty vector the behaviour is undefined.\<close>

definition element0 :: "'a list \<Rightarrow> fatal + 'a" where
  "element0 xs = (case xs of [] \<Rightarrow> Inl IndexOutOfRange | x # _ \<Rightarrow> Inr x)"

subsection \<open>genBreaks\<close>

text \<open>The eight regions the quality strings are learned from.\<close>

definition training_regions :: "region list" where
  "training_regions =
     [\<lparr>chr = 0, pos1 = 1000000, pos2 = 1001000\<rparr>, \<lparr>chr = 0, pos1 = 2000000, pos2 = 2001000\<rparr>,
      \<lparr>chr = 0, pos1 = 3000000, pos2 = 3001000\<rparr>, \<lparr>chr = 0, pos1 = 4000000, pos2 = 4001000\<rparr>,
      \<lparr>chr = 0, pos1 = 5000000, pos2 = 5001000\<rparr>, \<lparr>chr = 0, pos1 = 6000000, pos2 = 6001000\<rparr>,
      \<lparr>chr = 0, pos1 = 7000000, pos2 = 7001000\<rparr>, \<lparr>chr = 0, pos1 = 8000000, pos2 = 8001000\<rparr>]"

definition learn_qualities :: "'g services \<Rightarrow> opt \<Rightarrow> string list" where
  "learn_qualities S ops = map Qualities (walker_reads S (bam ops) training_regions)"

text \<open>
  \<^verbatim>\<open>quality_scores[rand() % quality_scores.size()]\<close>: one draw, reduced modulo the size
  of the pool. The remainder by a size of zero is undefined in C++ and is the error
  \<open>ModuloByZero\<close> here.
\<close>

definition pick_quality :: "'g services \<Rightarrow> string list \<Rightarrow> 'g \<Rightarrow> fatal + (string \<times> 'g)" where
  "pick_quality S quality_scores g =
     (case rand S g of (x, g') \<Rightarrow>
        if length quality_scores = 0 then Inl ModuloByZero
        else Inr (quality_scores ! (x mod length quality_scores), g'))"

text \<open>
  The loop that writes one FASTQ file: for each read, in order, the counter \<open>ccc\<close>, the
  bases, a plus line and a quality string of the pool. The result is the text of the file.
\<close>

fun fastq_records ::
  "'g services \<Rightarrow> string list \<Rightarrow> nat \<Rightarrow> string list \<Rightarrow> 'g \<Rightarrow> fatal + (string \<times> 'g)" where
  "fastq_records S quality_scores ccc [] g = Inr ([], g)"
| "fastq_records S quality_scores ccc (i # rest) g =
     (case pick_quality S quality_scores g of
        Inl e \<Rightarrow> Inl e
      | Inr (q, g') \<Rightarrow>
          (case fastq_records S quality_scores (ccc + 1) rest g' of
             Inl e \<Rightarrow> Inl e
           | Inr (txt, g'') \<Rightarrow>
               Inr (''@r'' @ show_nat ccc @ newline @ i @ newline @ ''+'' @ newline
                      @ q @ newline @ txt, g'')))"

text \<open>
  What the loop leaves in the file, written without the loop. \<open>draws S n g\<close> are the next
  \<open>n\<close> values of \<^verbatim>\<open>rand()\<close> from the generator state \<open>g\<close>, with the state after them.
  \<open>fastq_record\<close> is one record: the header \<^verbatim>\<open>@r\<close> with the counter, the bases, the plus
  line and the quality line. \<open>fastq_text\<close> is the file for a pool that is not empty: the
  record of the \<open>k\<close>-th read has the counter \<open>ccc + k\<close>, the bases of that read and the
  quality string of the pool at the \<open>k\<close>-th draw modulo the size of the pool.
\<close>

fun draws :: "'g services \<Rightarrow> nat \<Rightarrow> 'g \<Rightarrow> nat list \<times> 'g" where
  "draws S 0 g = ([], g)"
| "draws S (Suc n) g =
     (case rand S g of (x, g') \<Rightarrow> (case draws S n g' of (xs, g'') \<Rightarrow> (x # xs, g'')))"

definition fastq_record :: "nat \<Rightarrow> string \<Rightarrow> string \<Rightarrow> string" where
  "fastq_record n bases quality =
     ''@r'' @ show_nat n @ newline @ bases @ newline @ ''+'' @ newline @ quality @ newline"

definition fastq_text :: "string list \<Rightarrow> nat \<Rightarrow> string list \<Rightarrow> nat list \<Rightarrow> string" where
  "fastq_text pool ccc reads xs =
     concat (map (\<lambda>(n, bases, x). fastq_record n bases (pool ! (x mod length pool)))
               (zip [ccc ..< ccc + length reads] (zip reads xs)))"

definition genBreaks :: "'g services \<Rightarrow> opt \<Rightarrow> rates \<Rightarrow> region list \<Rightarrow> 'g \<Rightarrow> 'g run" where
  "genBreaks S ops r regions g =
     (let quality_scores = learn_qualities S ops in
      andthen (silently (element0 regions)) (\<lambda>gg.
      andthen (silently (SimGenome S g (refgenome ops) gg (nbreaks ops) (nindels ops))) (\<lambda>(sg, g1).
      andthen (emit [WriteText ''indels.tsv'' (concat (map (\<lambda>i. i @ newline) (m_indels sg)))]) (\<lambda>_.
      andthen (silently (element0 (coverages r))) (\<lambda>cov.
      andthen (silently (element0 (del_error_rates r))) (\<lambda>del.
      andthen (silently (element0 (ins_error_rates r))) (\<lambda>ins.
      andthen (silently (element0 (snv_error_rates r))) (\<lambda>snv.
      andthen (silently (samplePairedEndReadsToCoverage S g1 [(getSequence sg, 1)] cov snv ins del
                 (readlen ops) (isize_mean ops) (isize_sd ops))) (\<lambda>(reads1, reads2, g2).
      if length reads1 \<noteq> length reads2 then silently (Inl AssertionFailed)
      else
      andthen (silently (fastq_records S quality_scores 0 reads1 g2)) (\<lambda>(pe1, g3).
      andthen (emit [WriteText ''paired_end1.fastq'' pe1]) (\<lambda>_.
      andthen (silently (fastq_records S quality_scores 0 reads2 g3)) (\<lambda>(pe2, g4).
      andthen (emit [WriteText ''paired_end2.fastq'' pe2,
                     WriteText ''connections.tsv'' (printBreaks sg)]) (\<lambda>_.
      silently (Inr g4))))))))))))))"

subsection \<open>splitBam\<close>

text \<open>
  The walker is restricted to the regions when there are any. With a fractions table the
  BAM is fractionated into one file; otherwise there is one output file per fraction,
  named after the fraction.
\<close>

definition subsampled_names :: "'g services \<Rightarrow> opt \<Rightarrow> real list \<Rightarrow> string list" where
  "subsampled_names S ops fs = map (\<lambda>i. string_id ops @ to_string S i @ ''_subsampled.bam'') fs"

definition splitBam ::
  "'g services \<Rightarrow> opt \<Rightarrow> rates \<Rightarrow> region list \<Rightarrow> (region \<times> real) list \<Rightarrow> unit run" where
  "splitBam S ops r regions fractions_bed =
     (if fractions_bed \<noteq> []
      then emit [WriteBam (string_id ops @ ''.fractioned.bam'')
                   (fractionateBam S (bam ops) (seed ops) regions fractions_bed)]
      else (let fnames = subsampled_names S ops (fractions r)
            in emit (map (\<lambda>(n, b). WriteBam n b)
                      (zip fnames (splitBam_files S (bam ops) (seed ops) regions fnames (fractions r))))))"

subsection \<open>assemblyTest\<close>

definition fasta_records :: "nat \<Rightarrow> string list \<Rightarrow> string" where
  "fasta_records ccc reads =
     concat (map (\<lambda>(n, i). ''>r'' @ show_nat n @ newline @ i @ newline)
               (zip [ccc ..< ccc + length reads] reads))"

definition tab :: string where
  "tab = [CHR 0x09]"

text \<open>
  One round of the innermost loop (\<open>k\<close> is 1 in every round): single-end reads, paired-end
  reads, the assertion, alignment and assembly, the row on stdout, and the files of the
  round with coverage 20 and SNV rate 0.01.
\<close>

definition assembly_round ::
  "'g services \<Rightarrow> opt \<Rightarrow> string \<Rightarrow> real \<times> real \<times> real \<times> real \<Rightarrow> 'g \<Rightarrow> 'g run" where
  "assembly_round S ops local_ref cEDI g =
     (case cEDI of (c, E, D, I) \<Rightarrow>
      andthen (silently (sampleReadsToCoverage S g [(local_ref, 1)] c E I D (readlen ops))) (\<lambda>(reads, g1).
      andthen (silently (samplePairedEndReadsToCoverage S g1 [(local_ref, 1)] c E I D
                 (readlen ops) 350 50)) (\<lambda>(reads1, reads2, g2).
      if length reads1 \<noteq> length reads2 then silently (Inl AssertionFailed)
      else (case assess S g2 local_ref reads (readlen ops) of (a, g3) \<Rightarrow>
      andthen (emit (Stdout (show_double S c @ tab @ show_nat (length (reads_to_local a)) @ tab
                       @ show_nat (n_contigs a) @ tab @ show_nat (n_merged a) @ tab
                       @ show_double S (width a) @ tab @ ''1'' @ tab @ show_double S E @ newline)
                 # (if c = 20 \<and> E = 0.01
                    then [WriteBam ''contigs_to_ref.bam'' (contigs_to_local a),
                          WriteText ''paired_end1.fa'' (fasta_records 0 reads1),
                          WriteText ''paired_end2.fa'' (fasta_records 0 reads2),
                          WriteBam (''reads_to_ref_'' @ to_string S c @ ''.bam'') (reads_to_local a),
                          WriteBam ''k.bam'' (k_reads a)]
                    else []))) (\<lambda>_.
      silently (Inr g3))))))"

fun assembly_rounds ::
  "'g services \<Rightarrow> opt \<Rightarrow> string \<Rightarrow> (real \<times> real \<times> real \<times> real) list \<Rightarrow> 'g \<Rightarrow> 'g run" where
  "assembly_rounds S ops local_ref [] g = silently (Inr g)"
| "assembly_rounds S ops local_ref (x # xs) g =
     andthen (assembly_round S ops local_ref x g) (\<lambda>g'. assembly_rounds S ops local_ref xs g')"

text \<open>The rounds of the nested loops, outermost first: repetition, coverage, SNV, deletion, insertion.\<close>

definition rounds :: "opt \<Rightarrow> rates \<Rightarrow> (real \<times> real \<times> real \<times> real) list" where
  "rounds ops r =
     concat (replicate (nat (num_runs ops))
       (concat (map (\<lambda>c. concat (map (\<lambda>E. concat (map (\<lambda>D. map (\<lambda>I. (c, E, D, I))
          (ins_error_rates r)) (del_error_rates r))) (snv_error_rates r))) (coverages r))))"

definition assemblyTest :: "'g services \<Rightarrow> opt \<Rightarrow> rates \<Rightarrow> 'g \<Rightarrow> 'g run" where
  "assemblyTest S ops r g =
     (let local_ref = getRefSequence S (refgenome ops) \<lparr>chr = 16, pos1 = 7565720, pos2 = 7575000\<rparr>
      in if length local_ref * 2 \<le> readlen ops then silently (Inl ReadLengthTooLarge)
         else andthen (emit [WriteIndex ''local_ref'' (index_files S local_ref),
                        WriteText ''local_ref.fa'' (''>local_ref'' @ newline @ local_ref @ newline),
                        Stdout (''coverage'' @ tab @ ''numreads'' @ tab @ ''numcontigs'' @ tab
                          @ ''numfinal'' @ tab @ ''contig_coverage'' @ tab @ ''kmer_corr'' @ tab
                          @ ''error_rate'' @ newline)]) (\<lambda>_.
              assembly_rounds S ops local_ref (rounds ops r) g))"

subsection \<open>runBenchmark\<close>

text \<open>The regions of \<^verbatim>\<open>-k\<close>: a BED file, or one samtools-style string, which needs a header.\<close>

definition load_regions :: "parse_env \<Rightarrow> 'g services \<Rightarrow> opt \<Rightarrow> fatal + region list" where
  "load_regions E S ops =
     (if regionFile ops = [] then Inr []
      else (case (if read_access_test E (regionFile ops)
                  then Inr (regionFileToGRV S (regionFile ops) (bam ops))
                  else if CHR '':'' \<in> set (regionFile ops) \<and> CHR ''-'' \<in> set (regionFile ops)
                  then (if \<not> has_header S (bam ops) then Inl NeedBamHeader
                        else Inr [region_of_string S (regionFile ops) (bam ops)])
                  else Inl CantParseRegions) of
              Inl e \<Rightarrow> Inl e
            | Inr regions \<Rightarrow> if regions = [] then Inl MustInputRegion else Inr regions))"

text \<open>
  The seed the generator gets: \<^verbatim>\<open>if (opt::seed == 0) opt::seed = (unsigned)time(NULL)\<close>.
  \<open>now\<close> is the value of \<^verbatim>\<open>time(NULL)\<close>; the cast keeps its low 32 bits.
\<close>

definition seed_used :: "32 word \<Rightarrow> int \<Rightarrow> 32 word" where
  "seed_used s now = (if s = 0 then word_of_int now else s)"

definition seed_line :: "32 word \<Rightarrow> string" where
  "seed_line s = ''   Seed: '' @ show_nat (unat s)"

definition run_mode ::
  "'g services \<Rightarrow> opt \<Rightarrow> rates \<Rightarrow> region list \<Rightarrow> (region \<times> real) list \<Rightarrow> 'g \<Rightarrow> unit run" where
  "run_mode S ops r regions fractions_bed g =
     (if mode ops = OPT_ASSEMBLY then andthen (assemblyTest S ops r g) (\<lambda>_. silently (Inr ()))
      else if mode ops = OPT_SIMBREAKS then andthen (genBreaks S ops r regions g) (\<lambda>_. silently (Inr ()))
      else if mode ops = OPT_SPLITBAM then splitBam S ops r regions fractions_bed
      else emit [Stderr ''Mode not recognized. Chose from: --test-assembly, --sim-breaks, --split-bam''])"

definition runBenchmark ::
  "parse_env \<Rightarrow> 'g services \<Rightarrow> int \<Rightarrow> nat \<Rightarrow> (int \<times> string) list \<Rightarrow> unit run" where
  "runBenchmark E S now argc argv =
     andthen (silently (parseBenchmarkOptions E argc argv)) (\<lambda>(ops0, r).
     andthen (silently (load_regions E S ops0)) (\<lambda>regions.
     (let ops = ops0\<lparr>seed := seed_used (seed ops0) now\<rparr>;
          g = srand S (seed ops)
      in andthen (emit [Srand (seed ops), Stderr (seed_line (seed ops))]) (\<lambda>_.
         (let fractions_bed = (if frac_bed_file ops \<noteq> [] \<and> mode ops = OPT_SPLITBAM
                               then readFromBed S (frac_bed_file ops) (bam ops) else [])
          in run_mode S ops r regions fractions_bed g)))))"


text \<open>The events that seed the generator, and runs without one.\<close>

fun is_srand :: "event \<Rightarrow> bool" where
  "is_srand (Srand w) = True"
| "is_srand e = False"

definition unseeded :: "'a run \<Rightarrow> bool" where
  "unseeded m = (\<forall>e \<in> set (fst m). \<not> is_srand e)"

subsection \<open>What the operator reads\<close>

text \<open>
  The line on stderr before a fatal exit, for the exits that print one line. The usage
  exit prints the usage text; undefined behaviour and a failed assertion print nothing of
  the driver's.
\<close>

definition fatal_message :: "fatal \<Rightarrow> string" where
  "fatal_message e =
     (case e of
        CouldNotConvert val \<Rightarrow> ''Could not convert '' @ val @ '' to number''
      | MustSpecifyFractions \<Rightarrow>
          ''Error: Must specify fractions to split into with -f (e.g. -f 0.1,0.8), or as BED file''
      | NeedBamHeader \<Rightarrow>
          ''Error: To parse a samtools style string, need a BAM header. Input bam with -b''
      | CantParseRegions \<Rightarrow>
          ''Can'' @ [CHR 0x27] @ ''t parse the regions. Input as BED file or Samtools style string (requires BAM with -b to for header info)''
      | MustInputRegion \<Rightarrow> ''ERROR: Must input a region to run on ''
      | ReadLengthTooLarge \<Rightarrow> ''**** Read length must be > 2 * sequence length''
      | _ \<Rightarrow> [])"

subsection \<open>An instance of the parsing services\<close>

text \<open>
  A small concrete instance, to evaluate the model on examples: three numbers that
  \<open>stod\<close> converts, integer extraction that reads a few decimal numbers and stores 0
  when it fails (as the C++11 library does), and no readable file.
\<close>

definition example_parse_env :: parse_env where
  "example_parse_env =
     \<lparr> stod = map_of [(''0.5'', 0.5), (''0.25'', 0.25), (''20'', 20)],
       extract_int = (\<lambda>a old. case map_of [(''0'', 0), (''1'', 1), (''2'', 2), (''3'', 3)] a of
                                 Some n \<Rightarrow> n | None \<Rightarrow> 0),
       extract_u32 = (\<lambda>a old. case map_of [(''0'', 0), (''7'', 7), (''42'', 42)] a of
                                 Some w \<Rightarrow> w | None \<Rightarrow> 0),
       read_access_test = (\<lambda>path. False),
       REFHG19 = ''hg19.fasta'' \<rparr>"


subsection \<open>An instance of the services\<close>

text \<open>
  A small concrete instance over a generator whose state is a counter: seeding sets the
  counter to the seed, each draw returns the counter and increments it. The training BAM
  holds two records, the genome builder and the samplers return fixed data, the splitter
  writes empty files.
\<close>

definition example_reads :: "bam_read list" where
  "example_reads =
     [\<lparr> Qname = ''p1'', first_mate = True, Sequence = ''ACGT'', Qualities = ''IIII'',
          mapped = \<lparr>chr = 0, pos1 = 1000100, pos2 = 1000104\<rparr> \<rparr>,
      \<lparr> Qname = ''p1'', first_mate = False, Sequence = ''TTGA'', Qualities = ''JJJJ'',
          mapped = \<lparr>chr = 0, pos1 = 1000300, pos2 = 1000304\<rparr> \<rparr>]"

definition example_decimal :: "real \<Rightarrow> string" where
  "example_decimal x = (if x = 0.5 then ''0.5'' else if x = 0.25 then ''0.25'' else ''20'')"

definition example_services :: "nat services" where
  "example_services =
     \<lparr> srand = (\<lambda>w. unat w),
       rand = (\<lambda>g. (g, g + 1)),
       to_string = example_decimal,
       show_double = example_decimal,
       has_header = (\<lambda>b. b \<noteq> []),
       regionFileToGRV = (\<lambda>f b. []),
       region_of_string = (\<lambda>s b. \<lparr>chr = 0, pos1 = 0, pos2 = 1000\<rparr>),
       readFromBed = (\<lambda>f b. []),
       walker_reads = (\<lambda>b rs. if b = ''train.bam'' then example_reads else []),
       getRefSequence = (\<lambda>f r. concat (replicate 16 ''ACGT'')),
       SimGenome = (\<lambda>g f r nb ni.
          Inr (\<lparr> getSequence = ''ACGTTGCA'', m_indels = [], printBreaks = [] \<rparr>, g)),
       sampleReadsToCoverage = (\<lambda>g al c e i d n. Inr ([''ACGT''], g)),
       samplePairedEndReadsToCoverage = (\<lambda>g al c e i d n m sd. Inr ([''ACGT''], [''TGCA''], g)),
       fractionateBam = (\<lambda>b s rs t. []),
       splitBam_files = (\<lambda>b s rs names fs. map (\<lambda>f. []) fs),
       index_files = (\<lambda>s. s),
       assess = (\<lambda>g ref reads n.
          (\<lparr> reads_to_local = [], n_contigs = 0, contigs_to_local = [], n_merged = 0,
              width = 0, k_reads = [] \<rparr>, g)) \<rparr>"



text \<open>
  The same services with a paired sampler that depends on the coverage: two pairs of reads
  for a positive coverage, no read for the coverage 0 (\<^verbatim>\<open>-c 0\<close>). \<open>example_rates c\<close> are
  the default rates with the coverage \<open>c\<close>.
\<close>

definition example_coverage_services :: "nat services" where
  "example_coverage_services = example_services\<lparr>samplePairedEndReadsToCoverage :=
     (\<lambda>g al c e i d n m sd.
        if c \<le> 0 then Inr ([], [], g)
        else Inr ([''ACGT'', ''CCGT''], [''TGCA'', ''TTCA''], g))\<rparr>"

definition example_rates :: "real \<Rightarrow> rates" where
  "example_rates c = \<lparr> snv_error_rates = [0.01], del_error_rates = [0.05],
     ins_error_rates = [0.05], coverages = [c], fractions = [] \<rparr>"

section \<open>The dataset partitioner\<close>

text \<open>
  Modelled from the spec: the dataset partitioner (\<^verbatim>\<open>BamSplitter\<close>), whose code is not
  among the sources; the driver above only calls it. The definitions follow section 4.3 of
  the specification. The hash of a query name and a seed, a number of the unit interval,
  is a parameter \<open>h\<close>.
\<close>

text \<open>Modelled from the spec: the failures of the partitioner (section 4.3, Failure).\<close>

datatype partition_error = EmptyFractionSpec | RegionParseError string














section \<open>The read sampler\<close>

text \<open>
  Modelled from the spec: the paired-end read sampler (\<^verbatim>\<open>ReadSim\<close>), whose code is not
  among the sources; the driver only calls it and asserts that the two mate collections
  have the same size. The definitions follow section 4.2 of the specification. The random
  model is a parameter: \<open>draw\<close> yields a natural number, \<open>unit_draw\<close> a number of the unit
  interval, \<open>normal_draw\<close> a normally distributed number for a mean and a standard
  deviation; each returns the next state of the stream.
\<close>

text \<open>Modelled from the spec: the failure of the sampler (section 4.2, Failure).\<close>

datatype sampler_error = AlleleTooShort

text \<open>Modelled from the spec: the random model, a seeded stream of draws.\<close>

record 'g random_model =
  draw :: "'g \<Rightarrow> nat \<times> 'g"
  unit_draw :: "'g \<Rightarrow> real \<times> 'g"
  normal_draw :: "real \<Rightarrow> real \<Rightarrow> 'g \<Rightarrow> real \<times> 'g"

text \<open>Modelled from the spec: a uniform choice among \<open>n\<close> positions, from one draw.\<close>

definition below :: "nat \<Rightarrow> nat \<Rightarrow> nat" where
  "below n x = (if n = 0 then 0 else x mod n)"

text \<open>Modelled from the spec: the window of \<open>n\<close> bases at an offset of an allele.\<close>

definition window :: "string \<Rightarrow> nat \<Rightarrow> nat \<Rightarrow> string" where
  "window a start n = take n (drop start a)"

text \<open>Modelled from the spec: the complement of a base; what is not a base is left.\<close>

definition complement :: "char \<Rightarrow> char" where
  "complement b =
     (if b = CHR ''A'' then CHR ''T'' else if b = CHR ''T'' then CHR ''A''
      else if b = CHR ''C'' then CHR ''G'' else if b = CHR ''G'' then CHR ''C'' else b)"

text \<open>Modelled from the spec: the reverse complement of a window.\<close>

definition reverse_complement :: "string \<Rightarrow> string" where
  "reverse_complement s = map complement (rev s)"

text \<open>
  Modelled from the spec: the SNV pass. Each base is substituted with probability
  \<open>snvRate\<close>, by one of the other bases, chosen uniformly.
\<close>

fun snv_pass :: "'g random_model \<Rightarrow> real \<Rightarrow> string \<Rightarrow> 'g \<Rightarrow> string \<times> 'g" where
  "snv_pass R snvRate [] g = ([], g)"
| "snv_pass R snvRate (b # bs) g =
     (case unit_draw R g of (u, g1) \<Rightarrow>
        if u < snvRate
        then (case draw R g1 of (x, g2) \<Rightarrow>
                (case snv_pass R snvRate bs g2 of (rest, g3) \<Rightarrow>
                   (let alternates = filter (\<lambda>c. c \<noteq> b) ''ACGT''
                    in ((alternates ! below (length alternates) x) # rest, g3))))
        else (case snv_pass R snvRate bs g1 of (rest, g3) \<Rightarrow> (b # rest, g3)))"

text \<open>
  Modelled from the spec: the insertion of the indel pass. With probability \<open>insRate\<close> one
  random base is inserted at a random position and the tail is trimmed to the read length.
\<close>

definition insertion :: "'g random_model \<Rightarrow> real \<Rightarrow> nat \<Rightarrow> string \<Rightarrow> 'g \<Rightarrow> string \<times> 'g" where
  "insertion R insRate readLength r g =
     (case unit_draw R g of (u, g1) \<Rightarrow>
        if u < insRate
        then (case draw R g1 of (x, g2) \<Rightarrow>
                (case draw R g2 of (y, g3) \<Rightarrow>
                   (let base = ''ACGT'' ! below 4 x; pos = below (length r + 1) y
                    in (take readLength (take pos r @ [base] @ drop pos r), g3))))
        else (r, g1))"

text \<open>
  Modelled from the spec: the deletion of the indel pass. With probability \<open>delRate\<close> one
  base is removed at a random position and the tail is padded with a base sampled again
  from the source. A read without bases has none to remove.
\<close>

definition deletion :: "'g random_model \<Rightarrow> real \<Rightarrow> string \<Rightarrow> string \<Rightarrow> 'g \<Rightarrow> string \<times> 'g" where
  "deletion R delRate source r g =
     (case unit_draw R g of (u, g1) \<Rightarrow>
        if u < delRate \<and> r \<noteq> []
        then (case draw R g1 of (y, g2) \<Rightarrow>
                (case draw R g2 of (z, g3) \<Rightarrow>
                   (let pos = below (length r) y; pad = source ! below (length source) z
                    in (take pos r @ drop (Suc pos) r @ [pad], g3))))
        else (r, g1))"

text \<open>Modelled from the spec: error injection, in the fixed order SNV pass, then indel pass.\<close>

definition inject_errors ::
  "'g random_model \<Rightarrow> real \<Rightarrow> real \<Rightarrow> real \<Rightarrow> nat \<Rightarrow> string \<Rightarrow> string \<Rightarrow> 'g \<Rightarrow> string \<times> 'g" where
  "inject_errors R snvRate insRate delRate readLength source r g =
     (case snv_pass R snvRate r g of (r1, g1) \<Rightarrow>
        (case insertion R insRate readLength r1 g1 of (r2, g2) \<Rightarrow>
           deletion R delRate source r2 g2))"

text \<open>
  Modelled from the spec: one pair from an allele. The start is uniform among the offsets
  whose window fits; the insert size is a normal draw, rounded and clipped to hold a read
  and to stay within the allele; mate 1 is the window at the start, mate 2 the reverse
  complement of the window that ends the insert.
\<close>

definition sample_pair ::
  "'g random_model \<Rightarrow> string \<Rightarrow> nat \<Rightarrow> real \<Rightarrow> real \<Rightarrow> real \<Rightarrow> real \<Rightarrow> real \<Rightarrow> 'g
    \<Rightarrow> (string \<times> string) \<times> 'g" where
  "sample_pair R a readLength insertMean insertSd snvRate insRate delRate g =
     (case draw R g of (x, g1) \<Rightarrow>
        (case normal_draw R insertMean insertSd g1 of (z, g2) \<Rightarrow>
           (let start = below (length a - readLength + 1) x;
                isize = max readLength (min (length a - start) (nat \<lfloor>z + 1 / 2\<rfloor>));
                m1 = window a start readLength;
                m2 = reverse_complement (window a (start + isize - readLength) readLength)
            in (case inject_errors R snvRate insRate delRate readLength a m1 g2 of (r1, g3) \<Rightarrow>
                  (case inject_errors R snvRate insRate delRate readLength a m2 g3 of (r2, g4) \<Rightarrow>
                     ((r1, r2), g4))))))"

text \<open>Modelled from the spec: \<open>k\<close> pairs from one allele, one after the other.\<close>

fun sample_pairs ::
  "'g random_model \<Rightarrow> string \<Rightarrow> nat \<Rightarrow> real \<Rightarrow> real \<Rightarrow> real \<Rightarrow> real \<Rightarrow> real \<Rightarrow> nat \<Rightarrow> 'g
    \<Rightarrow> (string \<times> string) list \<times> 'g" where
  "sample_pairs R a readLength insertMean insertSd snvRate insRate delRate 0 g = ([], g)"
| "sample_pairs R a readLength insertMean insertSd snvRate insRate delRate (Suc k) g =
     (case sample_pair R a readLength insertMean insertSd snvRate insRate delRate g of (p, g1) \<Rightarrow>
        (case sample_pairs R a readLength insertMean insertSd snvRate insRate delRate k g1 of
           (ps, g2) \<Rightarrow> (p # ps, g2)))"

text \<open>
  Modelled from the spec: the target count \<open>ceil(coverage * totalAlleleLength / readLength)\<close>;
  paired mode halves it per mate. A read length of 0 leaves nothing to sample.
\<close>

definition read_count :: "real \<Rightarrow> nat \<Rightarrow> nat \<Rightarrow> nat" where
  "read_count coverage totalAlleleLength readLength =
     (if readLength = 0 then 0
      else nat \<lceil>coverage * real totalAlleleLength / real readLength\<rceil>)"

text \<open>
  Modelled from the spec: the share of an allele in \<open>k\<close> pairs, proportional to its
  weight. An allele of weight 0 is never sampled; neither is any when the weights sum to 0.
\<close>

definition allele_share :: "nat \<Rightarrow> real \<Rightarrow> real \<Rightarrow> nat" where
  "allele_share k w total_weight =
     (if total_weight \<le> 0 then 0 else nat \<lfloor>real k * w / total_weight\<rfloor>)"

text \<open>Modelled from the spec: the pairs of every allele, each allele with its share.\<close>

fun sample_alleles ::
  "'g random_model \<Rightarrow> (string \<times> nat) list \<Rightarrow> nat \<Rightarrow> real \<Rightarrow> real \<Rightarrow> real \<Rightarrow> real \<Rightarrow> real \<Rightarrow> 'g
    \<Rightarrow> (string \<times> string) list \<times> 'g" where
  "sample_alleles R [] readLength insertMean insertSd snvRate insRate delRate g = ([], g)"
| "sample_alleles R ((a, k) # rest) readLength insertMean insertSd snvRate insRate delRate g =
     (case sample_pairs R a readLength insertMean insertSd snvRate insRate delRate k g of
        (ps, g1) \<Rightarrow>
          (case sample_alleles R rest readLength insertMean insertSd snvRate insRate delRate g1 of
             (qs, g2) \<Rightarrow> (ps @ qs, g2)))"

text \<open>
  Modelled from the spec: \<open>samplePaired\<close>. It fails when the read length exceeds the length
  of an allele; otherwise it returns the first mates and the second mates of the pairs.
\<close>

definition samplePaired ::
  "'g random_model \<Rightarrow> (string \<times> real) list \<Rightarrow> real \<Rightarrow> real \<Rightarrow> real \<Rightarrow> real \<Rightarrow> nat \<Rightarrow> real \<Rightarrow> real \<Rightarrow> 'g
    \<Rightarrow> sampler_error + ((string list \<times> string list) \<times> 'g)" where
  "samplePaired R alleles coverage snvRate insRate delRate readLength insertMean insertSd g =
     (if list_ex (\<lambda>(a, w). length a < readLength) alleles then Inl AlleleTooShort
      else (let total = sum_list (map (\<lambda>(a, w). length a) alleles);
                pairs = read_count coverage total readLength div 2;
                total_weight = sum_list (map snd alleles);
                shares = map (\<lambda>(a, w). (a, allele_share pairs w total_weight)) alleles
            in (case sample_alleles R shares readLength insertMean insertSd snvRate insRate delRate g of
                  (ps, g') \<Rightarrow> Inr ((map fst ps, map snd ps), g'))))"


subsection \<open>An instance of the random model\<close>

text \<open>
  For evaluating the sampler on examples, over a counter: the draw is the counter, the
  unit draw a quarter of its remainder by 4, the normal draw the mean.
\<close>

definition example_random_model :: "nat random_model" where
  "example_random_model =
     \<lparr> draw = (\<lambda>g. (g, g + 1)),
       unit_draw = (\<lambda>g. (real (g mod 4) / 4, g + 1)),
       normal_draw = (\<lambda>m s g. (m, g + 1)) \<rparr>"

section \<open>Properties of option parsing\<close>

subsection \<open>Auxiliary facts\<close>

lemma andthen_Inl: "andthen (silently (Inl e)) f = ([], Inl e)"
  by (simp add: andthen_def silently_def)

lemma andthen_Inr: "andthen (silently (Inr a)) f = f a"
  by (simp add: andthen_def silently_def split: prod.splits)

lemma andthen_emit: "andthen (emit es) f = (es @ fst (f ()), snd (f ()))"
  by (simp add: andthen_def emit_def split: prod.splits)

lemma convert_pieces_find:
  "convert_pieces sd out vs =
     (case find (\<lambda>v. sd v = None) vs of
        Some v \<Rightarrow> Inl (CouldNotConvert v)
      | None \<Rightarrow> Inr (out @ map (\<lambda>v. the (sd v)) vs))"
  by (induction vs arbitrary: out) (auto split: option.splits)

lemma parseErrorRates_find:
  "parseErrorRates sd s =
     (case find (\<lambda>v. sd v = None) (getline_pieces [] s) of
        Some v \<Rightarrow> Inl (CouldNotConvert v)
      | None \<Rightarrow> Inr (map (\<lambda>v. the (sd v)) (getline_pieces [] s)))"
  by (simp add: parseErrorRates_def convert_pieces_find cong: option.case_cong)

lemma find_append_opt:
  "find P (xs @ ys) = (case find P xs of Some x \<Rightarrow> Some x | None \<Rightarrow> find P ys)"
  by (induction xs) auto

lemma getline_pieces_Nil: "getline_pieces cur s = [] \<longleftrightarrow> cur = [] \<and> s = []"
  by (induction s arbitrary: cur) auto

lemma parseErrorRates_empty: "parseErrorRates sd s = Inr [] \<longleftrightarrow> s = []"
  by (auto simp: parseErrorRates_find getline_pieces_Nil split: option.splits)

lemma parseErrorRates_Nil: "parseErrorRates sd [] = Inr []"
  by (simp add: parseErrorRates_def)

lemma set_defaults_simps:
  "snv_error_rates (set_defaults r) = (if snv_error_rates r = [] then [0.01] else snv_error_rates r)"
  "del_error_rates (set_defaults r) = (if del_error_rates r = [] then [0.05] else del_error_rates r)"
  "ins_error_rates (set_defaults r) = (if ins_error_rates r = [] then [0.05] else ins_error_rates r)"
  "coverages (set_defaults r) = (if coverages r = [] then [10] else coverages r)"
  "fractions (set_defaults r) = fractions r"
  by (simp_all add: set_defaults_def Let_def DEFAULT_SNV_RATE_def DEFAULT_DEL_RATE_def
      DEFAULT_INS_RATE_def DEFAULT_COV_def)

lemma parse_ok_cases:
  assumes "parseBenchmarkOptions E argc argv = Inr (ops, r)"
  obtains snv del ins cov fs ops0 l where
    "scan_options E argc argv = (ops0, l)" "\<not> die l"
    "parseErrorRates (stod E) (snv_er l) = Inr snv"
    "parseErrorRates (stod E) (del_er l) = Inr del"
    "parseErrorRates (stod E) (ins_er l) = Inr ins"
    "parseErrorRates (stod E) (covs l) = Inr cov"
    "parse_fractions E ops0 (frac l) = Inr (fs, ops)"
    "r = set_defaults \<lparr> snv_error_rates = snv, del_error_rates = del,
                        ins_error_rates = ins, coverages = cov, fractions = fs \<rparr>"
    "\<not> ((fs = [] \<and> frac_bed_file ops = []) \<and> mode ops = OPT_SPLITBAM)"
  using assms
  by (auto simp: parseBenchmarkOptions_def Let_def set_defaults_simps
      split: prod.splits sum.splits if_splits)

lemma scan_option_frac_bed_file:
  "frac_bed_file (fst (scan_option E st ca)) = frac_bed_file (fst st)"
  by (cases st; cases ca) (simp add: scan_option_def)

lemma foldl_scan_frac_bed_file:
  "frac_bed_file (fst (foldl (scan_option E) st argv)) = frac_bed_file (fst st)"
  by (induction argv arbitrary: st) (simp_all add: scan_option_frac_bed_file)

lemma scan_options_frac_bed_file: "frac_bed_file (fst (scan_options E argc argv)) = []"
  by (simp add: scan_options_def foldl_scan_frac_bed_file opt_init_def)

lemma parse_fractions_none:
  "frac_bed_file ops = [] \<Longrightarrow> parse_fractions E ops [] = Inr ([], ops)"
  by (cases ops) (simp add: parse_fractions_def parseErrorRates_Nil)


lemmas scan_eval = scan_options_def scan_option_def opt_init_def plocals_init_def
  extract_string_def isspace_def OPT_ASSEMBLY_def OPT_SPLITBAM_def OPT_SIMBREAKS_def
  OPT_ISIZE_MEAN_def OPT_ISIZE_SD_def

lemmas run_eval = runBenchmark_def parseBenchmarkOptions_def parse_fractions_def parseErrorRates_def
  set_defaults_def load_regions_def seed_used_def seed_line_def run_mode_def genBreaks_def
  splitBam_def subsampled_names_def learn_qualities_def pick_quality_def element0_def
  andthen_def silently_def emit_def newline_def tab_def digit_def
  example_parse_env_def example_services_def example_reads_def example_decimal_def
  DEFAULT_SNV_RATE_def DEFAULT_DEL_RATE_def DEFAULT_INS_RATE_def DEFAULT_COV_def Let_def

subsection \<open>Defaults of the rate lists\<close>

text \<open>
  Claim C4. Whenever option parsing returns, each of the four lists (SNV rate, deletion
  rate, insertion rate, coverage) was parsed from its option string by
  \<open>parseErrorRates\<close>; the list the engine then holds is the one-element list of the
  default of its category (0.01, 0.05, 0.05, 10) when the parsed list is empty, and the
  parsed list itself when it is not. A parsed list is empty exactly when its option string
  is.
\<close>

theorem defaults_for_empty_lists:
  assumes "parseBenchmarkOptions E argc argv = Inr (ops, r)"
  shows "\<exists>snv del ins cov.
     parseErrorRates (stod E) (snv_er (snd (scan_options E argc argv))) = Inr snv \<and>
     parseErrorRates (stod E) (del_er (snd (scan_options E argc argv))) = Inr del \<and>
     parseErrorRates (stod E) (ins_er (snd (scan_options E argc argv))) = Inr ins \<and>
     parseErrorRates (stod E) (covs (snd (scan_options E argc argv))) = Inr cov \<and>
     snv_error_rates r = (if snv = [] then [0.01] else snv) \<and>
     del_error_rates r = (if del = [] then [0.05] else del) \<and>
     ins_error_rates r = (if ins = [] then [0.05] else ins) \<and>
     coverages r = (if cov = [] then [10] else cov) \<and>
     (snv = [] \<longleftrightarrow> snv_er (snd (scan_options E argc argv)) = []) \<and>
     (del = [] \<longleftrightarrow> del_er (snd (scan_options E argc argv)) = []) \<and>
     (ins = [] \<longleftrightarrow> ins_er (snd (scan_options E argc argv)) = []) \<and>
     (cov = [] \<longleftrightarrow> covs (snd (scan_options E argc argv)) = [])"
using assms
proof (elim parse_ok_cases)
  fix snv del ins cov fs ops0 l
  assume sc: "scan_options E argc argv = (ops0, l)"
    and p: "parseErrorRates (stod E) (snv_er l) = Inr snv"
      "parseErrorRates (stod E) (del_er l) = Inr del"
      "parseErrorRates (stod E) (ins_er l) = Inr ins"
      "parseErrorRates (stod E) (covs l) = Inr cov"
    and r: "r = set_defaults \<lparr> snv_error_rates = snv, del_error_rates = del,
                        ins_error_rates = ins, coverages = cov, fractions = fs \<rparr>"
  have l: "snd (scan_options E argc argv) = l"
    using sc by simp
  have 1: "snv = [] \<longleftrightarrow> snv_er l = []"
    using p(1) parseErrorRates_empty [of "stod E" "snv_er l"] by simp
  have 2: "del = [] \<longleftrightarrow> del_er l = []"
    using p(2) parseErrorRates_empty [of "stod E" "del_er l"] by simp
  have 3: "ins = [] \<longleftrightarrow> ins_er l = []"
    using p(3) parseErrorRates_empty [of "stod E" "ins_er l"] by simp
  have 4: "cov = [] \<longleftrightarrow> covs l = []"
    using p(4) parseErrorRates_empty [of "stod E" "covs l"] by simp
  have d: "snv_error_rates r = (if snv = [] then [0.01] else snv)"
    "del_error_rates r = (if del = [] then [0.05] else del)"
    "ins_error_rates r = (if ins = [] then [0.05] else ins)"
    "coverages r = (if cov = [] then [10] else cov)"
    by (simp_all add: r set_defaults_simps)
  show ?thesis
    unfolding l using p d 1 2 3 4 by blast
qed

theorem defaults_for_empty_lists_witness:
  "\<exists>ops r. parseBenchmarkOptions example_parse_env 3 [(of_char CHR ''E'', ''0.5,0.25'')] = Inr (ops, r)
     \<and> snv_error_rates r = [0.5, 0.25] \<and> del_error_rates r = [0.05]
     \<and> ins_error_rates r = [0.05] \<and> coverages r = [10]"
proof -
  have sc: "snd (scan_options example_parse_env 3 [(of_char CHR ''E'', ''0.5,0.25'')])
     = \<lparr> die = False, del_er = [], snv_er = ''0.5,0.25'', ins_er = [], covs = [], frac = [] \<rparr>"
    by (simp add: scan_options_def scan_option_def opt_init_def plocals_init_def
      extract_string_def isspace_def OPT_ASSEMBLY_def)
  obtain ops r where h:
    "parseBenchmarkOptions example_parse_env 3 [(of_char CHR ''E'', ''0.5,0.25'')] = Inr (ops, r)"
    by (simp add: parseBenchmarkOptions_def scan_options_def scan_option_def opt_init_def
        plocals_init_def extract_string_def isspace_def OPT_ASSEMBLY_def OPT_SPLITBAM_def
        parse_fractions_def parseErrorRates_def example_parse_env_def Let_def)
  from defaults_for_empty_lists [OF h] show ?thesis
    unfolding sc using h by (simp add: parseErrorRates_def example_parse_env_def)
qed

subsection \<open>Malformed numeric lists\<close>

text \<open>
  Claim C6, as stated, fails in three ways. The argument of a list option is read with
  \<^verbatim>\<open>arg >> s\<close>, which keeps its first white-space-delimited token only: with
  \<^verbatim>\<open>-E '0.5 ,abc'\<close> the list given holds the element \<^verbatim>\<open>abc\<close>, which cannot be
  converted, yet the run parses the list \<open>[0.5]\<close>, seeds the generator and simulates the
  breaks to the end. With \<^verbatim>\<open>-E abc -h\<close> the run exits with the usage text and the
  malformed value is not reported. With \<^verbatim>\<open>-c bad1 -D bad3\<close> the value reported is
  \<^verbatim>\<open>bad3\<close>, of the deletion rates, which are parsed before the coverages, and the
  malformed value \<^verbatim>\<open>bad1\<close> of the coverage list is not reported.
\<close>

theorem malformed_list_may_pass_unreported:
  "''abc'' \<in> set (getline_pieces [] ''0.5 ,abc'')
   \<and> stod example_parse_env ''abc'' = None
   \<and> runBenchmark example_parse_env example_services 1000 10
        [(OPT_SIMBREAKS, []), (of_char CHR ''b'', ''train.bam''),
         (of_char CHR ''k'', ''1:1-1000''), (of_char CHR ''s'', ''42''),
         (of_char CHR ''E'', ''0.5 ,abc'')]
      = ([Srand 42, Stderr ''   Seed: 42'', WriteText ''indels.tsv'' [],
          WriteText ''paired_end1.fastq'' ''@r0\<newline>ACGT\<newline>+\<newline>IIII\<newline>'',
          WriteText ''paired_end2.fastq'' ''@r0\<newline>TGCA\<newline>+\<newline>JJJJ\<newline>'',
          WriteText ''connections.tsv'' []], Inr ())
   \<and> runBenchmark example_parse_env example_services 1000 4
        [(of_char CHR ''E'', ''abc''), (of_char CHR ''h'', [])]
      = ([], Inl Usage)
   \<and> fatal_message Usage \<noteq> ''Could not convert abc to number''
   \<and> stod example_parse_env ''bad1'' = None
   \<and> runBenchmark example_parse_env example_services 1000 5
        [(of_char CHR ''c'', ''bad1''), (of_char CHR ''D'', ''bad3'')]
      = ([], Inl (CouldNotConvert ''bad3''))"
  by (simp add: run_eval scan_eval fatal_message_def) (simp add: numeral_2_eq_2 [symmetric])

text \<open>
  Claim C6, amended. The numeric lists are taken as the engine receives them: the first
  white-space-delimited token of the argument of \<^verbatim>\<open>-E\<close>, \<^verbatim>\<open>-D\<close>, \<^verbatim>\<open>-I\<close> and
  \<^verbatim>\<open>-c\<close>, and that of \<^verbatim>\<open>-f\<close> when it does not name a readable file; they are parsed
  in the order SNV rates, deletion rates, insertion rates, coverages, fractions. If a piece
  \<open>v\<close> of one of them cannot be converted (\<open>stod\<close> throws), the run exits fatally and has
  done nothing before (no event: no seeding, no file, no call of the builder, the sampler
  or the splitter). The exit is the usage exit when the option scan asked for it
  (\<^verbatim>\<open>-h\<close>, an option that is not recognised, fewer than two arguments); otherwise it
  reports the first piece \<open>v'\<close>, in parsing order, that cannot be converted, and the
  message printed names \<open>v'\<close>.
\<close>

theorem malformed_list_is_fatal:
  assumes "scan_options E argc argv = (ops, l)"
    and "s \<in> set ([snv_er l, del_er l, ins_er l, covs l]
                    @ (if read_access_test E (frac l) then [] else [frac l]))"
    and "v \<in> set (getline_pieces [] s)" and "stod E v = None"
  shows "(\<exists>e. runBenchmark E S now argc argv = ([], Inl e))
       \<and> (die l \<longrightarrow> runBenchmark E S now argc argv = ([], Inl Usage))
       \<and> (\<not> die l \<longrightarrow>
            (\<exists>v'. find (\<lambda>v. stod E v = None)
                     (concat (map (getline_pieces [])
                        ([snv_er l, del_er l, ins_er l, covs l]
                          @ (if read_access_test E (frac l) then [] else [frac l])))) = Some v'
                 \<and> stod E v' = None
                 \<and> runBenchmark E S now argc argv = ([], Inl (CouldNotConvert v'))
                 \<and> fatal_message (CouldNotConvert v') = ''Could not convert '' @ v' @ '' to number''))"
proof -
  let ?bad = "\<lambda>v. stod E v = None"
  let ?lists = "[snv_er l, del_er l, ins_er l, covs l]
                  @ (if read_access_test E (frac l) then [] else [frac l])"
  have "v \<in> set (concat (map (getline_pieces []) ?lists))"
    using assms(2,3) by auto
  then have "find ?bad (concat (map (getline_pieces []) ?lists)) \<noteq> None"
    using assms(4) by (auto simp: find_None_iff simp del: set_concat)
  then obtain v' where v': "find ?bad (concat (map (getline_pieces []) ?lists)) = Some v'"
    by blast
  then have bad: "stod E v' = None"
    by (auto simp: find_Some_iff)
  have scanned: "runBenchmark E S now argc argv = ([], Inl (CouldNotConvert v'))" if "\<not> die l"
  proof -
    have "parseBenchmarkOptions E argc argv = Inl (CouldNotConvert v')"
      using v' assms(1) that
      by (auto simp: parseBenchmarkOptions_def parse_fractions_def parseErrorRates_find
          find_append_opt split: option.splits if_splits)
    then show ?thesis
      by (simp add: runBenchmark_def andthen_Inl)
  qed
  have usage: "runBenchmark E S now argc argv = ([], Inl Usage)" if "die l"
    using assms(1) that by (simp add: runBenchmark_def parseBenchmarkOptions_def andthen_Inl)
  have "\<exists>e. runBenchmark E S now argc argv = ([], Inl e)"
    using scanned usage by (cases "die l") blast+
  with v' bad scanned usage show ?thesis
    by (simp add: fatal_message_def)
qed

theorem malformed_list_is_fatal_witness:
  "runBenchmark example_parse_env example_services 1000 3 [(of_char CHR ''E'', ''0.5,abc'')]
     = ([], Inl (CouldNotConvert ''abc''))
   \<and> fatal_message (CouldNotConvert ''abc'') = ''Could not convert abc to number''
   \<and> runBenchmark example_parse_env example_services 1000 4
        [(of_char CHR ''E'', ''0.5,abc''), (of_char CHR ''h'', [])]
     = ([], Inl Usage)"
proof -
  let ?l = "\<lparr> die = False, del_er = [], snv_er = ''0.5,abc'', ins_er = [], covs = [], frac = [] \<rparr>"
  let ?u = "\<lparr> die = True, del_er = [], snv_er = ''0.5,abc'', ins_er = [], covs = [], frac = [] \<rparr>"
  have sc: "scan_options example_parse_env 3 [(of_char CHR ''E'', ''0.5,abc'')]
     = (opt_init example_parse_env, ?l)"
    by (simp add: scan_eval)
  have su: "scan_options example_parse_env 4 [(of_char CHR ''E'', ''0.5,abc''), (of_char CHR ''h'', [])]
     = (opt_init example_parse_env, ?u)"
    by (simp add: scan_eval)
  have 2: "snv_er ?l \<in> set ([snv_er ?l, del_er ?l, ins_er ?l, covs ?l]
                    @ (if read_access_test example_parse_env (frac ?l) then [] else [frac ?l]))"
    "snv_er ?u \<in> set ([snv_er ?u, del_er ?u, ins_er ?u, covs ?u]
                    @ (if read_access_test example_parse_env (frac ?u) then [] else [frac ?u]))"
    by simp_all
  have 3: "''abc'' \<in> set (getline_pieces [] (snv_er ?l))"
    "''abc'' \<in> set (getline_pieces [] (snv_er ?u))" by simp_all
  have 4: "stod example_parse_env ''abc'' = None" by (simp add: example_parse_env_def)
  from malformed_list_is_fatal [OF sc 2(1) 3(1) 4, of example_services 1000]
    malformed_list_is_fatal [OF su 2(2) 3(2) 4, of example_services 1000]
  show ?thesis
    by (simp add: example_parse_env_def)
qed

subsection \<open>Split-bam without fractions\<close>

text \<open>
  Claim C7. In split-bam mode with no fractions argument (the string of \<^verbatim>\<open>-f\<close> is
  empty, so there is neither a fraction list nor a table file), every run exits fatally
  before any event: nothing is seeded, read or partitioned. When the command line passes
  the option scan and the four other lists convert, the exit is the one that asks for
  fractions.
\<close>

theorem split_without_fractions_is_fatal:
  assumes "scan_options E argc argv = (ops, l)" and "mode ops = OPT_SPLITBAM" and "frac l = []"
  shows "(\<exists>e. runBenchmark E S now argc argv = ([], Inl e)) \<and>
         (\<not> die l \<and> (\<forall>s \<in> set [snv_er l, del_er l, ins_er l, covs l].
                          \<forall>v \<in> set (getline_pieces [] s). stod E v \<noteq> None)
           \<longrightarrow> runBenchmark E S now argc argv = ([], Inl MustSpecifyFractions))"
proof -
  have fb: "frac_bed_file ops = []"
    using scan_options_frac_bed_file [of E argc argv] assms(1) by simp
  have pf: "parse_fractions E ops (frac l) = Inr ([], ops)"
    using fb assms(3) by (simp add: parse_fractions_none)
  have "\<exists>e. parseBenchmarkOptions E argc argv = Inl e"
    using assms(1,2) pf fb
    by (auto simp: parseBenchmarkOptions_def Let_def set_defaults_simps split: sum.splits)
  then have 1: "\<exists>e. runBenchmark E S now argc argv = ([], Inl e)"
    by (auto simp: runBenchmark_def andthen_Inl)
  have 2: "runBenchmark E S now argc argv = ([], Inl MustSpecifyFractions)"
    if "\<not> die l" and ok: "\<forall>s \<in> set [snv_er l, del_er l, ins_er l, covs l].
                          \<forall>v \<in> set (getline_pieces [] s). stod E v \<noteq> None"
  proof -
    have "find (\<lambda>v. stod E v = None) (getline_pieces [] s) = None"
      if "s \<in> set [snv_er l, del_er l, ins_er l, covs l]" for s
      using ok that by (auto simp: find_None_iff)
    then have "parseBenchmarkOptions E argc argv = Inl MustSpecifyFractions"
      using assms(1,2) pf fb \<open>\<not> die l\<close>
      by (simp add: parseBenchmarkOptions_def Let_def set_defaults_simps parseErrorRates_find)
    then show ?thesis
      by (simp add: runBenchmark_def andthen_Inl)
  qed
  from 1 2 show ?thesis by blast
qed

theorem split_without_fractions_is_fatal_witness:
  "runBenchmark example_parse_env example_services 1000 2 [(OPT_SPLITBAM, [])]
     = ([], Inl MustSpecifyFractions)"
proof -
  let ?l = "\<lparr> die = False, del_er = [], snv_er = [], ins_er = [], covs = [], frac = [] \<rparr>"
  have sc: "scan_options example_parse_env 2 [(OPT_SPLITBAM, [])]
     = ((opt_init example_parse_env)\<lparr>mode := OPT_SPLITBAM\<rparr>, ?l)"
    by (simp add: scan_eval)
  have 1: "mode ((opt_init example_parse_env)\<lparr>mode := OPT_SPLITBAM\<rparr>) = OPT_SPLITBAM" by simp
  have 2: "frac ?l = []" by simp
  from split_without_fractions_is_fatal [OF sc 1 2, of example_services 1000]
  show ?thesis by simp
qed

section \<open>Properties of seeding\<close>

subsection \<open>Auxiliary facts\<close>

lemma unseeded_silently: "unseeded (silently r)"
  by (simp add: unseeded_def silently_def)

lemma unseeded_emit: "(\<forall>e \<in> set es. \<not> is_srand e) \<Longrightarrow> unseeded (emit es)"
  by (simp add: unseeded_def emit_def)

lemma unseeded_andthen:
  "unseeded m \<Longrightarrow> (\<And>a. unseeded (f a)) \<Longrightarrow> unseeded (andthen m f)"
proof (cases m)
  case (Pair es res)
  assume m: "unseeded m" and f: "\<And>a. unseeded (f a)"
  show ?thesis
  proof (cases res)
    case (Inl e)
    with Pair m show ?thesis by (simp add: unseeded_def andthen_def)
  next
    case (Inr a)
    have "fst (andthen m f) = es @ fst (f a)"
      using Pair Inr by (simp add: andthen_def split: prod.splits)
    with Pair m f [of a] show ?thesis by (auto simp: unseeded_def)
  qed
qed

lemma unseeded_case_prod: "(\<And>a b. unseeded (f a b)) \<Longrightarrow> unseeded (case_prod f p)"
  by (cases p) simp

lemma unseeded_if: "unseeded A \<Longrightarrow> unseeded B \<Longrightarrow> unseeded (if c then A else B)"
  by simp

lemmas unseeded_intros = unseeded_andthen unseeded_silently unseeded_emit unseeded_case_prod unseeded_if

lemma unseeded_genBreaks: "unseeded (genBreaks S ops r regions g)"
  unfolding genBreaks_def Let_def
  by (intro unseeded_intros) auto

lemma unseeded_splitBam: "unseeded (splitBam S ops r regions fb)"
  unfolding splitBam_def Let_def
  by (intro unseeded_intros) auto

lemma unseeded_assembly_round: "unseeded (assembly_round S ops ref x g)"
  unfolding assembly_round_def Let_def
  by (intro unseeded_intros) auto

lemma unseeded_assembly_rounds: "unseeded (assembly_rounds S ops ref xs g)"
  by (induction xs arbitrary: g) (auto intro!: unseeded_andthen unseeded_silently unseeded_assembly_round)

lemma unseeded_assemblyTest: "unseeded (assemblyTest S ops r g)"
  unfolding assemblyTest_def Let_def
  by (intro unseeded_intros unseeded_assembly_rounds) auto

lemma unseeded_run_mode: "unseeded (run_mode S ops r regions fb g)"
  unfolding run_mode_def
  by (intro unseeded_intros unseeded_assemblyTest unseeded_genBreaks unseeded_splitBam)
     auto

lemma runBenchmark_seeded:
  assumes "parseBenchmarkOptions E argc argv = Inr (ops, r)" and "load_regions E S ops = Inr regions"
  shows "runBenchmark E S now argc argv =
     (let w = seed_used (seed ops) now;
          m = run_mode S (ops\<lparr>seed := w\<rparr>) r regions
                (if frac_bed_file ops \<noteq> [] \<and> mode ops = OPT_SPLITBAM
                 then readFromBed S (frac_bed_file ops) (bam ops) else []) (srand S w)
      in (Srand w # Stderr (seed_line w) # fst m, snd m))"
  using assms by (simp add: runBenchmark_def andthen_Inr andthen_emit Let_def)

lemma parse_seed:
  assumes "parseBenchmarkOptions E argc argv = Inr (ops, r)"
  shows "seed ops = seed (fst (scan_options E argc argv))"
  using assms
  by (elim parse_ok_cases) (auto simp: parse_fractions_def split: if_splits sum.splits)

lemma seed_used_nonzero: "s \<noteq> 0 \<Longrightarrow> seed_used s now = s"
  by (simp add: seed_used_def)

lemma run_clock_free:
  assumes "seed (fst (scan_options E argc argv)) \<noteq> 0"
  shows "runBenchmark E S t1 argc argv = runBenchmark E S t2 argc argv"
proof (cases "parseBenchmarkOptions E argc argv")
  case (Inl e)
  then show ?thesis by (simp add: runBenchmark_def andthen_Inl)
next
  case (Inr p)
  obtain ops r where p: "p = (ops, r)" by (cases p)
  have nz: "seed ops \<noteq> 0"
    using parse_seed [of E argc argv ops r] Inr p assms by simp
  show ?thesis
  proof (cases "load_regions E S ops")
    case (Inl e)
    with Inr p show ?thesis by (simp add: runBenchmark_def andthen_Inl andthen_Inr)
  next
    case reg: (Inr regions)
    from Inr p reg nz show ?thesis
      by (simp add: runBenchmark_seeded seed_used_nonzero)
  qed
qed

lemma scan_seed_zero:
  assumes "seed ops = 0" and "extract_u32 E a 0 = 0"
  shows "scan_option E (ops, l) (of_char CHR ''s'', a) = (ops, l)"
  using assms by (simp add: scan_option_def OPT_ASSEMBLY_def)

lemma scan_options_seed_zero:
  assumes "seed (fst (scan_options E argc xs)) = 0" and "extract_u32 E a 0 = 0"
  shows "scan_options E argc (xs @ (of_char CHR ''s'', a) # ys) = scan_options E argc (xs @ ys)"
proof -
  obtain ops l where st: "foldl (scan_option E) (opt_init E, plocals_init argc) xs = (ops, l)"
    by (cases "foldl (scan_option E) (opt_init E, plocals_init argc) xs")
  with assms(1) have "seed ops = 0" by (simp add: scan_options_def)
  with st assms(2) scan_seed_zero [of ops E a l] show ?thesis
    by (simp add: scan_options_def)
qed

lemma run_depends_on_scan:
  assumes "scan_options E argc argv = scan_options E argc argv'"
  shows "runBenchmark E S now argc argv = runBenchmark E S now argc argv'"
  using assms by (simp add: runBenchmark_def parseBenchmarkOptions_def)

subsection \<open>Reproducible runs\<close>

text \<open>
  Claim C3, as stated, fails for the explicit seed 0. With \<^verbatim>\<open>-s 0\<close>, the same command
  line and the same collaborators, a run at clock value 1 and a run at clock value 2 seed
  the generator with 1 and with 2 and write different quality lines to
  \<^verbatim>\<open>paired_end1.fastq\<close> and \<^verbatim>\<open>paired_end2.fastq\<close>.
\<close>

theorem zero_seed_runs_differ:
  "extract_u32 example_parse_env ''0'' 0 = 0
   \<and> runBenchmark example_parse_env example_services 1 8
        [(OPT_SIMBREAKS, []), (of_char CHR ''b'', ''train.bam''),
         (of_char CHR ''k'', ''1:1-1000''), (of_char CHR ''s'', ''0'')]
      = ([Srand 1, Stderr ''   Seed: 1'', WriteText ''indels.tsv'' [],
          WriteText ''paired_end1.fastq'' ''@r0\<newline>ACGT\<newline>+\<newline>JJJJ\<newline>'',
          WriteText ''paired_end2.fastq'' ''@r0\<newline>TGCA\<newline>+\<newline>IIII\<newline>'',
          WriteText ''connections.tsv'' []], Inr ())
   \<and> runBenchmark example_parse_env example_services 2 8
        [(OPT_SIMBREAKS, []), (of_char CHR ''b'', ''train.bam''),
         (of_char CHR ''k'', ''1:1-1000''), (of_char CHR ''s'', ''0'')]
      = ([Srand 2, Stderr ''   Seed: 2'', WriteText ''indels.tsv'' [],
          WriteText ''paired_end1.fastq'' ''@r0\<newline>ACGT\<newline>+\<newline>IIII\<newline>'',
          WriteText ''paired_end2.fastq'' ''@r0\<newline>TGCA\<newline>+\<newline>JJJJ\<newline>'',
          WriteText ''connections.tsv'' []], Inr ())"
  by (simp add: run_eval scan_eval) (simp add: numeral_2_eq_2 [symmetric])

text \<open>
  Claim C3, amended. When the seed the option scan leaves is not 0, a run does not depend
  on the clock: two runs of the same command line with the same collaborators (functions
  of their arguments and of the state of the generator) have the same events in the same
  order, so the same files with the same bytes, and the same exit.
\<close>

theorem nonzero_seed_runs_agree:
  assumes "seed (fst (scan_options E argc argv)) \<noteq> 0"
  shows "runBenchmark E S t1 argc argv = runBenchmark E S t2 argc argv"
proof (cases "parseBenchmarkOptions E argc argv")
  case (Inl e)
  then show ?thesis
    by (simp add: runBenchmark_def andthen_Inl)
next
  case (Inr parsed)
  obtain ops r where parsed: "parsed = (ops, r)"
    by (cases parsed)
  have "seed ops = seed (fst (scan_options E argc argv))"
    using Inr parsed by (simp add: parse_seed)
  with assms have same: "seed_used (seed ops) t1 = seed_used (seed ops) t2"
    by (simp add: seed_used_def)
  show ?thesis
  proof (cases "load_regions E S ops")
    case (Inl e)
    with Inr parsed show ?thesis
      by (simp add: runBenchmark_def andthen_Inl andthen_Inr)
  next
    case regions: (Inr regions)
    from Inr parsed regions same show ?thesis
      by (simp add: runBenchmark_seeded)
  qed
qed

theorem nonzero_seed_runs_agree_witness:
  "seed (fst (scan_options example_parse_env 8
        [(OPT_SIMBREAKS, []), (of_char CHR ''b'', ''train.bam''),
         (of_char CHR ''k'', ''1:1-1000''), (of_char CHR ''s'', ''42'')])) = 42
   \<and> runBenchmark example_parse_env example_services 1 8
        [(OPT_SIMBREAKS, []), (of_char CHR ''b'', ''train.bam''),
         (of_char CHR ''k'', ''1:1-1000''), (of_char CHR ''s'', ''42'')]
     = runBenchmark example_parse_env example_services 2 8
        [(OPT_SIMBREAKS, []), (of_char CHR ''b'', ''train.bam''),
         (of_char CHR ''k'', ''1:1-1000''), (of_char CHR ''s'', ''42'')]"
proof -
  have h: "seed (fst (scan_options example_parse_env 8
        [(OPT_SIMBREAKS, []), (of_char CHR ''b'', ''train.bam''),
         (of_char CHR ''k'', ''1:1-1000''), (of_char CHR ''s'', ''42'')])) = 42"
    by (simp add: scan_eval example_parse_env_def)
  then have "seed (fst (scan_options example_parse_env 8
        [(OPT_SIMBREAKS, []), (of_char CHR ''b'', ''train.bam''),
         (of_char CHR ''k'', ''1:1-1000''), (of_char CHR ''s'', ''42'')])) \<noteq> 0"
    by simp
  from nonzero_seed_runs_agree [OF this, of example_services 1 2] h show ?thesis
    by simp
qed

subsection \<open>Seeding and the logged seed\<close>

text \<open>
  Claim C5, as stated, fails when the seed supplied is 0: with \<^verbatim>\<open>-s 0\<close> and the clock
  at 1000 the generator is seeded with 1000, not with the seed supplied.
\<close>

theorem explicit_zero_seed_not_used:
  "extract_u32 example_parse_env ''0'' 0 = 0
   \<and> fst (runBenchmark example_parse_env example_services 1000 3 [(of_char CHR ''s'', ''0'')])
      = [Srand 1000, Stderr ''   Seed: 1000'',
         Stderr ''Mode not recognized. Chose from: --test-assembly, --sim-breaks, --split-bam'']
   \<and> Srand 0 \<notin> set (fst (runBenchmark example_parse_env example_services 1000 3
                            [(of_char CHR ''s'', ''0'')]))"
  by (simp add: run_eval scan_eval)

text \<open>
  Claim C5, amended. In every run that gets past option parsing and the loading of the
  regions, the driver seeds the generator exactly once, before any other event of the run:
  with the seed option when that is not 0, and with the low 32 bits of the clock when it
  is 0 (not given, or given as 0). The next event is the stderr line with the seed used,
  in decimal, and the mode then runs on the state the seeding gave.
\<close>

theorem seeded_once_and_logged:
  assumes "parseBenchmarkOptions E argc argv = Inr (ops, r)" and "load_regions E S ops = Inr regions"
  shows "\<exists>rest. fst (runBenchmark E S now argc argv)
            = Srand (seed_used (seed ops) now) # Stderr (seed_line (seed_used (seed ops) now)) # rest
         \<and> (\<forall>e \<in> set rest. \<not> is_srand e)
         \<and> rest = fst (run_mode S (ops\<lparr>seed := seed_used (seed ops) now\<rparr>) r regions
                         (if frac_bed_file ops \<noteq> [] \<and> mode ops = OPT_SPLITBAM
                          then readFromBed S (frac_bed_file ops) (bam ops) else [])
                         (srand S (seed_used (seed ops) now)))
         \<and> seed_used (seed ops) now = (if seed ops = 0 then word_of_int now else seed ops)
         \<and> seed_line (seed_used (seed ops) now) = ''   Seed: '' @ show_nat (unat (seed_used (seed ops) now))"
proof -
  let ?w = "seed_used (seed ops) now"
  let ?m = "run_mode S (ops\<lparr>seed := ?w\<rparr>) r regions
                (if frac_bed_file ops \<noteq> [] \<and> mode ops = OPT_SPLITBAM
                 then readFromBed S (frac_bed_file ops) (bam ops) else []) (srand S ?w)"
  have "fst (runBenchmark E S now argc argv) = Srand ?w # Stderr (seed_line ?w) # fst ?m"
    using assms by (simp add: runBenchmark_seeded Let_def)
  moreover have "\<forall>e \<in> set (fst ?m). \<not> is_srand e"
    using unseeded_run_mode [of S _ r regions] by (simp only: unseeded_def)
  moreover have "?w = (if seed ops = 0 then word_of_int now else seed ops)"
    by (simp add: seed_used_def)
  moreover have "seed_line ?w = ''   Seed: '' @ show_nat (unat ?w)"
    by (simp only: seed_line_def)
  ultimately show ?thesis by blast
qed

theorem seeded_once_and_logged_witness:
  "\<exists>rest. fst (runBenchmark example_parse_env example_services 1000 4
             [(of_char CHR ''s'', ''42''), (OPT_SPLITBAM, []), (of_char CHR ''f'', ''0.5,0.25'')])
      = Srand 42 # Stderr ''   Seed: 42'' # rest \<and> list_all (\<lambda>e. \<not> is_srand e) rest"
proof -
  let ?argv = "[(of_char CHR ''s'', ''42''), (OPT_SPLITBAM, []), (of_char CHR ''f'', ''0.5,0.25'')]"
  let ?ops = "(opt_init example_parse_env)\<lparr>seed := 42, mode := OPT_SPLITBAM\<rparr>"
  let ?r = "\<lparr> snv_error_rates = [0.01], del_error_rates = [0.05], ins_error_rates = [0.05],
             coverages = [10], fractions = [0.5, 0.25] \<rparr>"
  have p: "parseBenchmarkOptions example_parse_env 4 ?argv = Inr (?ops, ?r)"
    by (simp add: run_eval scan_eval)
  have l: "load_regions example_parse_env example_services ?ops = Inr []"
    by (simp add: load_regions_def opt_init_def)
  from seeded_once_and_logged [OF p l, of 1000] show ?thesis
    by (simp add: seed_used_def seed_line_def digit_def list_all_iff)
qed

subsection \<open>The seed 0\<close>

text \<open>
  Claim C9. (1) A \<^verbatim>\<open>-s\<close> option whose argument reads as 0, given where the seed is still
  unset, changes nothing: the run is the run of the command line without it. (2) A run
  that reaches the seeding with the seed 0 seeds the generator with the low 32 bits of the
  clock, and two such runs whose clocks differ in these bits differ. (3) With any other
  seed the run does not depend on the clock. (4) The seed used depends on the clock for
  the seed 0 and for no other seed.
\<close>

theorem zero_seed_is_unset:
  "(seed (fst (scan_options E argc xs)) = 0 \<and> extract_u32 E a 0 = 0
      \<longrightarrow> runBenchmark E S now argc (xs @ (of_char CHR ''s'', a) # ys)
            = runBenchmark E S now argc (xs @ ys))
   \<and> (parseBenchmarkOptions E argc argv = Inr (ops, r) \<and> load_regions E S ops = Inr regions
        \<and> seed ops = 0
      \<longrightarrow> (\<exists>rest. fst (runBenchmark E S now argc argv)
                     = Srand (word_of_int now) # Stderr (seed_line (word_of_int now)) # rest)
          \<and> ((word_of_int t1 :: 32 word) \<noteq> word_of_int t2
               \<longrightarrow> runBenchmark E S t1 argc argv \<noteq> runBenchmark E S t2 argc argv))
   \<and> (seed (fst (scan_options E argc argv)) \<noteq> 0
      \<longrightarrow> runBenchmark E S t1 argc argv = runBenchmark E S t2 argc argv)
   \<and> ((\<exists>t t'. seed_used s t \<noteq> seed_used s t') \<longleftrightarrow> s = 0)"
proof (intro conjI impI)
  assume "seed (fst (scan_options E argc xs)) = 0 \<and> extract_u32 E a 0 = 0"
  then show "runBenchmark E S now argc (xs @ (of_char CHR ''s'', a) # ys)
            = runBenchmark E S now argc (xs @ ys)"
    by (intro run_depends_on_scan scan_options_seed_zero) simp_all
next
  assume h: "parseBenchmarkOptions E argc argv = Inr (ops, r) \<and> load_regions E S ops = Inr regions
        \<and> seed ops = 0"
  then show "\<exists>rest. fst (runBenchmark E S now argc argv)
                     = Srand (word_of_int now) # Stderr (seed_line (word_of_int now)) # rest"
    by (simp add: runBenchmark_seeded Let_def seed_used_def)
  assume "(word_of_int t1 :: 32 word) \<noteq> word_of_int t2"
  with h show "runBenchmark E S t1 argc argv \<noteq> runBenchmark E S t2 argc argv"
    by (simp add: runBenchmark_seeded Let_def seed_used_def)
next
  assume "seed (fst (scan_options E argc argv)) \<noteq> 0"
  then show "runBenchmark E S t1 argc argv = runBenchmark E S t2 argc argv"
    by (rule run_clock_free)
next
  show "(\<exists>t t'. seed_used s t \<noteq> seed_used s t') \<longleftrightarrow> s = 0"
  proof
    assume "\<exists>t t'. seed_used s t \<noteq> seed_used s t'"
    then show "s = 0" by (auto simp: seed_used_def split: if_splits)
  next
    assume "s = 0"
    then have "seed_used s 0 \<noteq> seed_used s 1" by (simp add: seed_used_def)
    then show "\<exists>t t'. seed_used s t \<noteq> seed_used s t'" by blast
  qed
qed

theorem zero_seed_is_unset_witness:
  "runBenchmark example_parse_env example_services 1000 3 [(of_char CHR ''s'', ''0'')]
     = runBenchmark example_parse_env example_services 1000 3 []
   \<and> (\<exists>rest. fst (runBenchmark example_parse_env example_services 1000 3 [(of_char CHR ''s'', ''0'')])
               = Srand 1000 # Stderr ''   Seed: 1000'' # rest)
   \<and> runBenchmark example_parse_env example_services 1 3 [(of_char CHR ''s'', ''0'')]
       \<noteq> runBenchmark example_parse_env example_services 2 3 [(of_char CHR ''s'', ''0'')]
   \<and> runBenchmark example_parse_env example_services 1 3 [(of_char CHR ''s'', ''7'')]
       = runBenchmark example_parse_env example_services 2 3 [(of_char CHR ''s'', ''7'')]"
proof -
  let ?r = "\<lparr> snv_error_rates = [0.01], del_error_rates = [0.05], ins_error_rates = [0.05],
             coverages = [10], fractions = [] \<rparr>"
  have a: "seed (fst (scan_options example_parse_env 3 [])) = 0
             \<and> extract_u32 example_parse_env ''0'' 0 = 0"
    by (simp add: scan_eval example_parse_env_def)
  have b: "parseBenchmarkOptions example_parse_env 3 [(of_char CHR ''s'', ''0'')]
             = Inr (opt_init example_parse_env, ?r)
           \<and> load_regions example_parse_env example_services (opt_init example_parse_env) = Inr []
           \<and> seed (opt_init example_parse_env) = 0"
    by (simp add: run_eval scan_eval)
  have c: "(word_of_int 1 :: 32 word) \<noteq> word_of_int 2"
    by simp
  have d: "seed (fst (scan_options example_parse_env 3 [(of_char CHR ''s'', ''7'')])) \<noteq> 0"
    by (simp add: scan_eval example_parse_env_def)
  have 1: "runBenchmark example_parse_env example_services 1000 3 [(of_char CHR ''s'', ''0'')]
     = runBenchmark example_parse_env example_services 1000 3 []"
    using zero_seed_is_unset [of example_parse_env 3 "[]" "''0''" example_services 1000 "[]"] a
    by simp
  have 2: "\<exists>rest. fst (runBenchmark example_parse_env example_services 1000 3 [(of_char CHR ''s'', ''0'')])
               = Srand 1000 # Stderr ''   Seed: 1000'' # rest"
    using zero_seed_is_unset [of example_parse_env 3 "[]" "''0''" example_services 1000 "[]"
        "[(of_char CHR ''s'', ''0'')]" "opt_init example_parse_env" ?r "[]"] b
    by (simp add: seed_line_def digit_def)
  have 3: "runBenchmark example_parse_env example_services 1 3 [(of_char CHR ''s'', ''0'')]
       \<noteq> runBenchmark example_parse_env example_services 2 3 [(of_char CHR ''s'', ''0'')]"
    using zero_seed_is_unset [of example_parse_env 3 "[]" "''0''" example_services 1000 "[]"
        "[(of_char CHR ''s'', ''0'')]" "opt_init example_parse_env" ?r "[]" 1 2] b c
    by blast
  have 4: "runBenchmark example_parse_env example_services 1 3 [(of_char CHR ''s'', ''7'')]
       = runBenchmark example_parse_env example_services 2 3 [(of_char CHR ''s'', ''7'')]"
    using zero_seed_is_unset [of example_parse_env 3 "[]" "''0''" example_services 1000 "[]"
        "[(of_char CHR ''s'', ''7'')]" _ _ _ 1 2] d
    by blast
  from 1 2 3 4 show ?thesis by blast
qed

section \<open>Properties of the break simulation\<close>

subsection \<open>Auxiliary facts\<close>

lemma snd_silently: "snd (silently r) = r"
  by (simp add: silently_def)

lemma fst_silently: "fst (silently r) = []"
  by (simp add: silently_def)

lemma pick_quality_empty: "pick_quality S [] g = Inl ModuloByZero"
  by (simp add: pick_quality_def split: prod.splits)

lemma fastq_records_empty_pool:
  "reads \<noteq> [] \<Longrightarrow> fastq_records S [] ccc reads g = Inl ModuloByZero"
  by (cases reads) (simp_all add: pick_quality_empty)

lemma length_draws: "length (fst (draws S n g)) = n"
proof (induction n arbitrary: g)
  case 0
  show ?case by simp
next
  case (Suc n)
  obtain x g1 where 1: "rand S g = (x, g1)" by (cases "rand S g")
  obtain xs g2 where 2: "draws S n g1 = (xs, g2)" by (cases "draws S n g1")
  from Suc.IH [of g1] 1 2 show ?case by simp
qed

lemma fastq_text_Nil: "fastq_text pool ccc [] xs = []"
  by (simp add: fastq_text_def)

lemma fastq_text_Cons:
  "fastq_text pool ccc (i # rest) (x # xs)
     = fastq_record ccc i (pool ! (x mod length pool)) @ fastq_text pool (Suc ccc) rest xs"
proof -
  have "[ccc ..< ccc + length (i # rest)] = ccc # [Suc ccc ..< Suc ccc + length rest]"
    by (subst upt_rec) simp
  then show ?thesis
    by (simp add: fastq_text_def)
qed

lemma fastq_records_closed_form:
  "pool \<noteq> [] \<Longrightarrow>
     fastq_records S pool ccc reads g
       = Inr (fastq_text pool ccc reads (fst (draws S (length reads) g)),
              snd (draws S (length reads) g))"
proof (induction reads arbitrary: ccc g)
  case Nil
  show ?case by (simp add: fastq_text_Nil)
next
  case (Cons i rest)
  obtain x g1 where 1: "rand S g = (x, g1)" by (cases "rand S g")
  obtain xs g2 where 2: "draws S (length rest) g1 = (xs, g2)" by (cases "draws S (length rest) g1")
  have "fastq_records S pool (ccc + 1) rest g1 = Inr (fastq_text pool (ccc + 1) rest xs, g2)"
    using Cons.IH [OF Cons.prems, of "ccc + 1" g1] 2 by simp
  with Cons.prems 1 2 show ?case
    by (simp add: pick_quality_def fastq_text_Cons fastq_record_def)
qed

subsection \<open>The pool of quality strings\<close>

text \<open>
  Claim C10, as stated, fails when no read is emitted. With a training BAM that yields no
  read in the eight regions the pool is empty; at the coverage 0 the sampler of the
  instance returns no read, neither loop runs its body, no index is computed, and the
  break simulation returns normally, with two empty FASTQ files: the operation is
  well-defined without the precondition, and its error branch is not reached.
\<close>

theorem empty_pool_without_reads_returns:
  "walker_reads example_coverage_services (bam (opt_init example_parse_env)) training_regions = []
   \<and> learn_qualities example_coverage_services (opt_init example_parse_env) = []
   \<and> genBreaks example_coverage_services (opt_init example_parse_env) (example_rates 0)
        [\<lparr>chr = 0, pos1 = 0, pos2 = 1000\<rparr>] 7
      = ([WriteText ''indels.tsv'' [], WriteText ''paired_end1.fastq'' [],
          WriteText ''paired_end2.fastq'' [], WriteText ''connections.tsv'' []], Inr 7)"
  by (simp add: genBreaks_def learn_qualities_def element0_def andthen_def silently_def emit_def
      example_coverage_services_def example_services_def example_rates_def opt_init_def Let_def)

text \<open>
  Claim C10, amended. Take a break simulation that reaches the two loops: there is a
  region, the builder and the sampler return, and there are as many first mates as second
  mates. The pool is empty exactly when the training BAM yields no read in the eight fixed
  regions. With a pool that is not empty the operation returns, and the two files hold one
  record for each emitted read, in order: the \<open>k\<close>-th record of a file has the counter
  \<open>k\<close>, the bases of the \<open>k\<close>-th read and the quality string of the pool at the index
  \<^verbatim>\<open>rand() % quality_scores.size()\<close> of the \<open>k\<close>-th draw of that loop (the draws of the
  second file follow those of the first); each index is below the size of the pool and
  each quality string is one of the pool. With an empty pool the operation is well-defined
  exactly when no read is emitted: if a read is emitted, the first index computation is a
  remainder by zero (undefined behaviour in C++, the exit \<open>ModuloByZero\<close> here) and only
  \<^verbatim>\<open>indels.tsv\<close> has been written; if none is, the operation returns with two empty
  FASTQ files.
\<close>

theorem each_read_gets_a_pool_quality:
  assumes "regions = gg # others"
    and "SimGenome S g (refgenome ops) gg (nbreaks ops) (nindels ops) = Inr (sg, g1)"
    and "coverages r = cov # covs'" and "del_error_rates r = del # dels'"
    and "ins_error_rates r = ins # inss'" and "snv_error_rates r = snv # snvs'"
    and "samplePairedEndReadsToCoverage S g1 [(getSequence sg, 1)] cov snv ins del
           (readlen ops) (isize_mean ops) (isize_sd ops) = Inr (reads1, reads2, g2)"
    and "length reads1 = length reads2"
  shows "(learn_qualities S ops = [] \<longleftrightarrow> walker_reads S (bam ops) training_regions = [])
       \<and> (learn_qualities S ops \<noteq> [] \<longrightarrow>
            genBreaks S ops r regions g
              = ([WriteText ''indels.tsv'' (concat (map (\<lambda>i. i @ newline) (m_indels sg))),
                  WriteText ''paired_end1.fastq''
                    (fastq_text (learn_qualities S ops) 0 reads1 (fst (draws S (length reads1) g2))),
                  WriteText ''paired_end2.fastq''
                    (fastq_text (learn_qualities S ops) 0 reads2
                       (fst (draws S (length reads2) (snd (draws S (length reads1) g2))))),
                  WriteText ''connections.tsv'' (printBreaks sg)],
                 Inr (snd (draws S (length reads2) (snd (draws S (length reads1) g2)))))
            \<and> length (fst (draws S (length reads1) g2)) = length reads1
            \<and> length (fst (draws S (length reads2) (snd (draws S (length reads1) g2)))) = length reads2
            \<and> (\<forall>x. x mod length (learn_qualities S ops) < length (learn_qualities S ops)
                   \<and> learn_qualities S ops ! (x mod length (learn_qualities S ops))
                        \<in> set (learn_qualities S ops)))
       \<and> (learn_qualities S ops = [] \<and> reads1 \<noteq> [] \<longrightarrow>
            genBreaks S ops r regions g
              = ([WriteText ''indels.tsv'' (concat (map (\<lambda>i. i @ newline) (m_indels sg)))],
                 Inl ModuloByZero))
       \<and> (learn_qualities S ops = [] \<and> reads1 = [] \<longrightarrow>
            genBreaks S ops r regions g
              = ([WriteText ''indels.tsv'' (concat (map (\<lambda>i. i @ newline) (m_indels sg))),
                  WriteText ''paired_end1.fastq'' [], WriteText ''paired_end2.fastq'' [],
                  WriteText ''connections.tsv'' (printBreaks sg)],
                 Inr g2))"
proof -
  let ?pool = "learn_qualities S ops"
  let ?indels = "WriteText ''indels.tsv'' (concat (map (\<lambda>i. i @ newline) (m_indels sg)))"
  have pre: "genBreaks S ops r regions g =
     andthen (emit [?indels]) (\<lambda>_.
      andthen (silently (fastq_records S ?pool 0 reads1 g2)) (\<lambda>(pe1, g3).
      andthen (emit [WriteText ''paired_end1.fastq'' pe1]) (\<lambda>_.
      andthen (silently (fastq_records S ?pool 0 reads2 g3)) (\<lambda>(pe2, g4).
      andthen (emit [WriteText ''paired_end2.fastq'' pe2,
                     WriteText ''connections.tsv'' (printBreaks sg)]) (\<lambda>_.
      silently (Inr g4))))))"
    using assms by (simp add: genBreaks_def Let_def element0_def andthen_Inr)
  have a: "?pool = [] \<longleftrightarrow> walker_reads S (bam ops) training_regions = []"
    by (simp add: learn_qualities_def)
  have b: "genBreaks S ops r regions g
              = ([?indels,
                  WriteText ''paired_end1.fastq''
                    (fastq_text ?pool 0 reads1 (fst (draws S (length reads1) g2))),
                  WriteText ''paired_end2.fastq''
                    (fastq_text ?pool 0 reads2
                       (fst (draws S (length reads2) (snd (draws S (length reads1) g2))))),
                  WriteText ''connections.tsv'' (printBreaks sg)],
                 Inr (snd (draws S (length reads2) (snd (draws S (length reads1) g2)))))"
    if ne: "?pool \<noteq> []"
    by (simp add: pre fastq_records_closed_form [OF ne] andthen_emit andthen_Inr fst_silently snd_silently)
  have c: "x mod length ?pool < length ?pool \<and> ?pool ! (x mod length ?pool) \<in> set ?pool"
    if "?pool \<noteq> []" for x
    using that by simp
  have d: "genBreaks S ops r regions g = ([?indels], Inl ModuloByZero)"
    if "?pool = []" and "reads1 \<noteq> []"
    using that
    by (simp add: pre fastq_records_empty_pool andthen_emit andthen_Inl)
  have e: "genBreaks S ops r regions g
              = ([?indels, WriteText ''paired_end1.fastq'' [], WriteText ''paired_end2.fastq'' [],
                  WriteText ''connections.tsv'' (printBreaks sg)], Inr g2)"
    if "?pool = []" and "reads1 = []"
    using that assms(8)
    by (simp add: pre andthen_emit andthen_Inr fst_silently snd_silently)
  from a b c d e show ?thesis
    by (simp add: length_draws)
qed

theorem each_read_gets_a_pool_quality_witness:
  "genBreaks example_coverage_services ((opt_init example_parse_env)\<lparr>bam := ''train.bam''\<rparr>)
        (example_rates 10) [\<lparr>chr = 0, pos1 = 0, pos2 = 1000\<rparr>] 7
      = ([WriteText ''indels.tsv'' [],
          WriteText ''paired_end1.fastq''
            ''@r0\<newline>ACGT\<newline>+\<newline>JJJJ\<newline>@r1\<newline>CCGT\<newline>+\<newline>IIII\<newline>'',
          WriteText ''paired_end2.fastq''
            ''@r0\<newline>TGCA\<newline>+\<newline>JJJJ\<newline>@r1\<newline>TTCA\<newline>+\<newline>IIII\<newline>'',
          WriteText ''connections.tsv'' []], Inr 11)
   \<and> genBreaks example_coverage_services (opt_init example_parse_env) (example_rates 10)
        [\<lparr>chr = 0, pos1 = 0, pos2 = 1000\<rparr>] 7
      = ([WriteText ''indels.tsv'' []], Inl ModuloByZero)
   \<and> genBreaks example_coverage_services (opt_init example_parse_env) (example_rates 0)
        [\<lparr>chr = 0, pos1 = 0, pos2 = 1000\<rparr>] 7
      = ([WriteText ''indels.tsv'' [], WriteText ''paired_end1.fastq'' [],
          WriteText ''paired_end2.fastq'' [], WriteText ''connections.tsv'' []], Inr 7)"
proof -
  let ?trained = "(opt_init example_parse_env)\<lparr>bam := ''train.bam''\<rparr>"
  let ?plain = "opt_init example_parse_env"
  let ?gg = "\<lparr>chr = 0, pos1 = 0, pos2 = 1000\<rparr>"
  let ?sg = "\<lparr> getSequence = ''ACGTTGCA'', m_indels = [], printBreaks = [] \<rparr>"
  have 1: "[?gg] = ?gg # []" by simp
  have 2: "SimGenome example_coverage_services 7 (refgenome ops) ?gg (nbreaks ops) (nindels ops)
             = Inr (?sg, 7)" for ops
    by (simp add: example_coverage_services_def example_services_def)
  have 3: "coverages (example_rates c) = c # []" "del_error_rates (example_rates c) = 0.05 # []"
    "ins_error_rates (example_rates c) = 0.05 # []" "snv_error_rates (example_rates c) = 0.01 # []"
    for c
    by (simp_all add: example_rates_def)
  have 4: "samplePairedEndReadsToCoverage example_coverage_services 7 [(getSequence ?sg, 1)]
             10 0.01 0.05 0.05 (readlen ops) (isize_mean ops) (isize_sd ops)
           = Inr ([''ACGT'', ''CCGT''], [''TGCA'', ''TTCA''], 7)" for ops
    by (simp add: example_coverage_services_def example_services_def)
  have 5: "length [''ACGT'', ''CCGT''] = length [''TGCA'', ''TTCA'']" by simp
  have 6: "samplePairedEndReadsToCoverage example_coverage_services 7 [(getSequence ?sg, 1)]
             0 0.01 0.05 0.05 (readlen ops) (isize_mean ops) (isize_sd ops)
           = Inr ([], [], 7)" for ops
    by (simp add: example_coverage_services_def example_services_def)
  have 7: "length ([] :: string list) = length ([] :: string list)" by simp
  have pool: "learn_qualities example_coverage_services ?trained = [''IIII'', ''JJJJ'']"
    by (simp add: learn_qualities_def example_coverage_services_def example_services_def
        example_reads_def)
  have pool0: "learn_qualities example_coverage_services ?plain = []"
    by (simp add: learn_qualities_def example_coverage_services_def example_services_def
        opt_init_def)
  have rnd: "rand example_coverage_services = (\<lambda>g. (g, g + 1))"
    by (simp add: example_coverage_services_def example_services_def)
  have a: "genBreaks example_coverage_services ?trained (example_rates 10) [?gg] 7
      = ([WriteText ''indels.tsv'' [],
          WriteText ''paired_end1.fastq'' (fastq_text [''IIII'', ''JJJJ''] 0 [''ACGT'', ''CCGT''] [7, 8]),
          WriteText ''paired_end2.fastq'' (fastq_text [''IIII'', ''JJJJ''] 0 [''TGCA'', ''TTCA''] [9, 10]),
          WriteText ''connections.tsv'' []], Inr 11)"
    using each_read_gets_a_pool_quality [OF 1 2 3 4 5, of ?trained] by (simp add: pool rnd)
  have b: "genBreaks example_coverage_services ?plain (example_rates 10) [?gg] 7
      = ([WriteText ''indels.tsv'' []], Inl ModuloByZero)"
    using each_read_gets_a_pool_quality [OF 1 2 3 4 5, of ?plain] by (simp add: pool0)
  have c: "genBreaks example_coverage_services ?plain (example_rates 0) [?gg] 7
      = ([WriteText ''indels.tsv'' [], WriteText ''paired_end1.fastq'' [],
          WriteText ''paired_end2.fastq'' [], WriteText ''connections.tsv'' []], Inr 7)"
    using each_read_gets_a_pool_quality [OF 1 2 3 6 7, of ?plain] by (simp add: pool0)
  have t: "fastq_text [''IIII'', ''JJJJ''] 0 [''ACGT'', ''CCGT''] [7, 8]
             = ''@r0\<newline>ACGT\<newline>+\<newline>JJJJ\<newline>@r1\<newline>CCGT\<newline>+\<newline>IIII\<newline>''"
    "fastq_text [''IIII'', ''JJJJ''] 0 [''TGCA'', ''TTCA''] [9, 10]
             = ''@r0\<newline>TGCA\<newline>+\<newline>JJJJ\<newline>@r1\<newline>TTCA\<newline>+\<newline>IIII\<newline>''"
    by code_simp+
  from a b c show ?thesis
    by (simp only: t)
qed

section \<open>Properties of the partitioner\<close>

subsection \<open>Auxiliary facts\<close>




subsection \<open>Mate pairs stay together\<close>




section \<open>Properties of the read sampler\<close>

subsection \<open>Auxiliary facts\<close>

lemma length_snv_pass: "length (fst (snv_pass R p r g)) = length r"
proof (induction r arbitrary: g)
  case Nil
  show ?case by simp
next
  case (Cons b bs)
  obtain u g1 where 1: "unit_draw R g = (u, g1)" by (cases "unit_draw R g")
  obtain x g2 where 2: "draw R g1 = (x, g2)" by (cases "draw R g1")
  obtain rest g3 where 3: "snv_pass R p bs g2 = (rest, g3)" by (cases "snv_pass R p bs g2")
  obtain rest' g3' where 4: "snv_pass R p bs g1 = (rest', g3')" by (cases "snv_pass R p bs g1")
  have "length rest = length bs" using Cons.IH [of g2] 3 by simp
  moreover have "length rest' = length bs" using Cons.IH [of g1] 4 by simp
  ultimately show ?case
    using 1 2 3 4 by (simp add: Let_def del: filter.simps)
qed

lemma below_less: "0 < n \<Longrightarrow> below n x < n"
  by (simp add: below_def)

lemma length_insertion:
  "length r = n \<Longrightarrow> length (fst (insertion R p n r g)) = n"
  by (auto simp: insertion_def Let_def split: prod.splits)

lemma length_deletion: "length (fst (deletion R p source r g)) = length r"
proof (cases "fst (unit_draw R g) < p \<and> r \<noteq> []")
  case True
  then have "below (length r) y < length r" for y
    by (simp add: below_less)
  then have "length (take (below (length r) y) r @ drop (Suc (below (length r) y)) r @ [c]) = length r" for y c
    using Suc_leI [of "below (length r) y" "length r"] by (simp add: less_imp_le min_absorb2)
  with True show ?thesis
    by (simp add: deletion_def Let_def split: prod.splits)
next
  case False
  then show ?thesis
    by (auto simp: deletion_def split: prod.splits)
qed

lemma length_inject_errors:
  "length r = n \<Longrightarrow> length (fst (inject_errors R s i d n source r g)) = n"
proof -
  assume n: "length r = n"
  obtain r1 g1 where 1: "snv_pass R s r g = (r1, g1)" by (cases "snv_pass R s r g")
  obtain r2 g2 where 2: "insertion R i n r1 g1 = (r2, g2)" by (cases "insertion R i n r1 g1")
  have "length r1 = n" using length_snv_pass [of R s r g] 1 n by simp
  then have "length r2 = n" using length_insertion [of r1 n R i g1] 2 by simp
  then show ?thesis
    using 1 2 length_deletion [of R d source r2 g2] by (simp add: inject_errors_def)
qed

lemma length_window: "start + n \<le> length a \<Longrightarrow> length (window a start n) = n"
  by (simp add: window_def)

lemma length_reverse_complement: "length (reverse_complement s) = length s"
  by (simp add: reverse_complement_def)

lemma sample_pair_lengths:
  assumes "n \<le> length a"
  shows "length (fst (fst (sample_pair R a n m sd s i d g))) = n
       \<and> length (snd (fst (sample_pair R a n m sd s i d g))) = n"
proof -
  obtain x g1 where 1: "draw R g = (x, g1)" by (cases "draw R g")
  obtain z g2 where 2: "normal_draw R m sd g1 = (z, g2)" by (cases "normal_draw R m sd g1")
  define start where "start = below (length a - n + 1) x"
  define isize where "isize = max n (min (length a - start) (nat \<lfloor>z + 1 / 2\<rfloor>))"
  have s: "start + n \<le> length a"
    using below_less [of "length a - n + 1" x] assms by (simp add: start_def)
  then have i: "n \<le> isize" "start + isize \<le> length a"
    by (auto simp: isize_def)
  have w1: "length (window a start n) = n"
    using s by (rule length_window)
  have w2: "length (reverse_complement (window a (start + isize - n) n)) = n"
    using i by (simp add: length_reverse_complement length_window)
  obtain r1 g3 where 3: "inject_errors R s i d n a (window a start n) g2 = (r1, g3)"
    by (cases "inject_errors R s i d n a (window a start n) g2")
  obtain r2 g4 where 4:
    "inject_errors R s i d n a (reverse_complement (window a (start + isize - n) n)) g3 = (r2, g4)"
    by (cases "inject_errors R s i d n a (reverse_complement (window a (start + isize - n) n)) g3")
  have "length r1 = n"
    using length_inject_errors [OF w1, of R s i d a g2] 3 by simp
  moreover have "length r2 = n"
    using length_inject_errors [OF w2, of R s i d a g3] 4 by simp
  moreover have "sample_pair R a n m sd s i d g = ((r1, r2), g4)"
    using 1 2 3 4 by (simp add: sample_pair_def Let_def start_def isize_def)
  ultimately show ?thesis by simp
qed

lemma sample_pairs_lengths:
  assumes "n \<le> length a"
  shows "\<forall>p \<in> set (fst (sample_pairs R a n m sd s i d k g)). length (fst p) = n \<and> length (snd p) = n"
proof (induction k arbitrary: g)
  case 0
  show ?case by simp
next
  case (Suc k)
  obtain p g1 where 1: "sample_pair R a n m sd s i d g = (p, g1)"
    by (cases "sample_pair R a n m sd s i d g")
  have "length (fst p) = n \<and> length (snd p) = n"
    using sample_pair_lengths [OF assms, of R m sd s i d g] 1 by simp
  with Suc.IH [of g1] 1 show ?case
    by (auto split: prod.splits)
qed

lemma sample_alleles_lengths:
  assumes "\<forall>(a, k) \<in> set shares. n \<le> length a"
  shows "\<forall>p \<in> set (fst (sample_alleles R shares n m sd s i d g)). length (fst p) = n \<and> length (snd p) = n"
  using assms
proof (induction shares arbitrary: g)
  case Nil
  show ?case by simp
next
  case (Cons ak rest)
  obtain a k where ak: "ak = (a, k)" by (cases ak)
  obtain ps g1 where 1: "sample_pairs R a n m sd s i d k g = (ps, g1)"
    by (cases "sample_pairs R a n m sd s i d k g")
  have "n \<le> length a" using Cons.prems ak by simp
  then have ps: "\<forall>p \<in> set ps. length (fst p) = n \<and> length (snd p) = n"
    using sample_pairs_lengths [of n a R m sd s i d k g] 1 by simp
  have "\<forall>p \<in> set (fst (sample_alleles R rest n m sd s i d g1)). length (fst p) = n \<and> length (snd p) = n"
    using Cons.IH [of g1] Cons.prems by simp
  with ps 1 ak show ?case
    by (auto split: prod.splits)
qed

subsection \<open>Paired reads\<close>

text \<open>
  Claim C2. When every allele is at least as long as the read length, paired-end sampling
  returns (it does not fail), the collection of first mates and the collection of second
  mates have the same size, and every read of both has exactly \<open>readLength\<close> bases. This
  holds for every coverage, every rate, every insert size distribution and every random
  stream, so in particular for a positive coverage and rates between 0 and 1.
\<close>

theorem paired_reads_have_read_length:
  assumes "\<forall>(a, w) \<in> set alleles. readLength \<le> length a"
  shows "\<exists>mate1s mate2s g'.
           samplePaired R alleles coverage snvRate insRate delRate readLength insertMean insertSd g
             = Inr ((mate1s, mate2s), g')
           \<and> length mate1s = length mate2s
           \<and> (\<forall>r \<in> set mate1s. length r = readLength)
           \<and> (\<forall>r \<in> set mate2s. length r = readLength)"
proof -
  define total where "total = sum_list (map (\<lambda>(a, w). length a) alleles)"
  define pairs where "pairs = read_count coverage total readLength div 2"
  define shares where
    "shares = map (\<lambda>(a, w). (a, allele_share pairs w (sum_list (map snd alleles)))) alleles"
  obtain ps g' where 1:
    "sample_alleles R shares readLength insertMean insertSd snvRate insRate delRate g = (ps, g')"
    by (cases "sample_alleles R shares readLength insertMean insertSd snvRate insRate delRate g")
  have fits: "\<not> list_ex (\<lambda>(a, w). length a < readLength) alleles"
    using assms by (auto simp: list_ex_iff)
  have "\<forall>(a, k) \<in> set shares. readLength \<le> length a"
    using assms by (auto simp: shares_def)
  then have ps: "\<forall>p \<in> set ps. length (fst p) = readLength \<and> length (snd p) = readLength"
    using sample_alleles_lengths [of shares readLength R insertMean insertSd snvRate insRate delRate g] 1
    by simp
  have "samplePaired R alleles coverage snvRate insRate delRate readLength insertMean insertSd g
          = Inr ((map fst ps, map snd ps), g')"
    using fits 1 by (simp add: samplePaired_def Let_def total_def pairs_def shares_def)
  with ps show ?thesis by auto
qed

lemma samplePaired_example: "samplePaired example_random_model [(''ACGTACGTAC'', 1)] 2 (1/2) (1/2) (1/2) 4 6 1 0
     = Inr (([''ATTA'', ''GGCA''], [''GCAC'', ''GAAC'']), 40)"
  by code_simp

theorem paired_reads_have_read_length_witness:
  "samplePaired example_random_model [(''ACGTACGTAC'', 1)] 2 (1/2) (1/2) (1/2) 4 6 1 0
     = Inr (([''ATTA'', ''GGCA''], [''GCAC'', ''GAAC'']), 40)
   \<and> length [''ATTA'', ''GGCA''] = length [''GCAC'', ''GAAC'']
   \<and> list_all (\<lambda>r. length r = 4) ([''ATTA'', ''GGCA''] @ [''GCAC'', ''GAAC''])"
proof -
  have h: "\<forall>(a, w) \<in> set [(''ACGTACGTAC'', 1 :: real)]. 4 \<le> length a"
    by simp
  from paired_reads_have_read_length [OF h, of example_random_model 2 "1/2" "1/2" "1/2" 6 1 0]
  obtain mate1s mate2s g' where
    r: "samplePaired example_random_model [(''ACGTACGTAC'', 1)] 2 (1/2) (1/2) (1/2) 4 6 1 0
          = Inr ((mate1s, mate2s), g')"
    and l: "length mate1s = length mate2s"
    and a: "\<forall>r \<in> set mate1s. length r = 4" "\<forall>r \<in> set mate2s. length r = 4"
    by blast
  from r have e: "mate1s = [''ATTA'', ''GGCA'']" "mate2s = [''GCAC'', ''GAAC'']"
    by (simp_all add: samplePaired_example)
  from l a show ?thesis
    unfolding e by (simp add: samplePaired_example list_all_iff)
qed

end
